theory Spec2Isabelle
  imports Main
begin

section \<open>Python values, exceptions and callables\<close>

text \<open>
  The values that flow through the schema nodes of \<^verbatim>\<open>inputvalue.py\<close> and
  \<^verbatim>\<open>motion.py\<close>: booleans, integers, strings and tuples. Floating-point values are
  not part of the model; the unit conversion that would produce them is a parameter of
  the two \<open>fetch\<close> functions.
\<close>

datatype pyval = PBool bool | PInt int | PStr string | PTuple "pyval list"

text \<open>
  The text of an exception. \<open>NotValidOption v opts\<close> stands for
  \<^verbatim>\<open>str(v) + " is not a valid option (" + str(opts) + ")"\<close>, whose rendering of
  \<open>v\<close> and \<open>opts\<close> is Python's own; \<open>CannotStore\<close> for
  \<^verbatim>\<open>"Cannot store Mover calculator of type " + str(type(sc))\<close>.
\<close>

datatype msg = Text string | NotValidOption pyval "pyval list" | CannotStore

datatype error =
  ValueError msg | NameError msg | TypeError msg | AttributeError msg | IndexError msg

text \<open>A Python callable used as a \<open>dtype\<close>: it returns a value or raises.\<close>

type_synonym callable = "pyval \<Rightarrow> error + pyval"

text \<open>A method that mutates its object and may raise: the object afterwards, and the
  exception if one was raised. The mutations made before the raise stay.\<close>

type_synonym 's outcome = "'s \<times> error option"

text \<open>Python's \<open>==\<close> on these values: a bool is the integer 0 or 1, tuples compare
  elementwise, values of different kinds are unequal.\<close>

fun py_eq :: "pyval \<Rightarrow> pyval \<Rightarrow> bool" where
  "py_eq (PBool a) (PBool b) = (a = b)"
| "py_eq (PBool a) (PInt j) = ((if a then 1 else 0) = j)"
| "py_eq (PInt i) (PBool b) = (i = (if b then 1 else 0))"
| "py_eq (PInt i) (PInt j) = (i = j)"
| "py_eq (PStr s) (PStr t) = (s = t)"
| "py_eq (PTuple []) (PTuple []) = True"
| "py_eq (PTuple (x # xs)) (PTuple (y # ys)) = (py_eq x y \<and> py_eq (PTuple xs) (PTuple ys))"
| "py_eq _ _ = False"

text \<open>\<^verbatim>\<open>v in opts\<close> on a list.\<close>

definition py_in :: "pyval \<Rightarrow> pyval list \<Rightarrow> bool" where
  "py_in v opts = list_ex (py_eq v) opts"

text \<open>The builtins \<open>bool\<close> and \<open>tuple\<close> as callables. \<open>tuple\<close> of a string is the
  tuple of its characters; a bool or an int is not iterable.\<close>

fun py_bool :: callable where
  "py_bool (PBool b) = Inr (PBool b)"
| "py_bool (PInt i) = Inr (PBool (i \<noteq> 0))"
| "py_bool (PStr s) = Inr (PBool (s \<noteq> []))"
| "py_bool (PTuple xs) = Inr (PBool (xs \<noteq> []))"

fun py_tuple :: callable where
  "py_tuple (PTuple xs) = Inr (PTuple xs)"
| "py_tuple (PStr s) = Inr (PTuple (map (\<lambda>c. PStr [c]) s))"
| "py_tuple (PBool b) = Inl (TypeError (Text ''object is not iterable''))"
| "py_tuple (PInt i) = Inl (TypeError (Text ''object is not iterable''))"

text \<open>The builtin \<open>str\<close>: the identity on a string; the rendering \<open>fmt\<close> of any other
  value is Python's own and is a parameter.\<close>

fun py_str :: "(pyval \<Rightarrow> string) \<Rightarrow> callable" where
  "py_str fmt (PStr s) = Inr (PStr s)"
| "py_str fmt v = Inr (PStr (fmt v))"

text \<open>The builtin \<open>int\<close>: the reading \<open>rd\<close> of an integer literal out of a string is
  Python's own and is a parameter (\<open>None\<close> when the string is no literal).\<close>

fun py_int :: "(string \<Rightarrow> int option) \<Rightarrow> callable" where
  "py_int rd (PInt i) = Inr (PInt i)"
| "py_int rd (PBool b) = Inr (PInt (if b then 1 else 0))"
| "py_int rd (PStr s) =
     (case rd s of None \<Rightarrow> Inl (ValueError (Text ''invalid literal for int()''))
      | Some i \<Rightarrow> Inr (PInt i))"
| "py_int rd (PTuple xs) = Inl (TypeError (Text ''int() argument must be a string or a number''))"

section \<open>Default descriptors\<close>

text \<open>
  The \<open>default\<close> argument of a constructor: \<open>None\<close>, a literal, or an
  \<^verbatim>\<open>input_default\<close> descriptor. A descriptor holds a factory with its arguments;
  \<open>factory(*args, **kwargs)\<close> is a thunk here, which may return \<open>None\<close>.
\<close>

datatype 'a default_arg = NoDefault | Literal 'a | Deferred "unit \<Rightarrow> 'a option"

text \<open>\<^verbatim>\<open>Input.__init__\<close>, lines 149 to 157: the pair \<open>(_default, _optional)\<close>.\<close>

fun resolve_default :: "'a default_arg \<Rightarrow> 'a option \<times> bool" where
  "resolve_default NoDefault = (None, False)"
| "resolve_default (Literal d) = (Some d, True)"
| "resolve_default (Deferred f) = (f (), True)"

section \<open>Scalar leaf: \<^verbatim>\<open>InputValue\<close>\<close>

text \<open>
  The instance attributes of an \<^verbatim>\<open>InputValue\<close> that the methods below read or write
  (\<open>_help\<close> and \<open>_label\<close> only feed the manual), with the name of its class,
  \<^verbatim>\<open>type(self).__name__\<close>. \<open>v_value = None\<close> means that the attribute \<open>value\<close> has
  not been assigned yet.
\<close>

record vleaf =
  v_class :: string
  v_dimension :: string
  v_units :: string
  v_default :: "pyval option"
  v_optional :: bool
  v_explicit :: bool
  v_type :: callable
  v_value :: "pyval option"
  v_valid :: "pyval list option"

text \<open>\<^verbatim>\<open>InputValue.store\<close>: \<^verbatim>\<open>Input.store\<close> sets \<open>_explicit\<close>, then the value is
  coerced; when the coercion raises, \<open>value\<close> is not assigned.\<close>

definition value_store :: "vleaf \<Rightarrow> pyval \<Rightarrow> vleaf outcome" where
  "value_store n v =
     (let n1 = n\<lparr>v_explicit := True\<rparr>
      in case v_type n1 v of
           Inl e \<Rightarrow> (n1, Some e)
         | Inr w \<Rightarrow> (n1\<lparr>v_value := Some w\<rparr>, None))"

text \<open>\<^verbatim>\<open>InputValue.check\<close>: \<^verbatim>\<open>Input.check\<close> first, then the option list. Reading
  \<open>self.value\<close> before any assignment is an \<open>AttributeError\<close>.\<close>

definition value_check :: "vleaf \<Rightarrow> error + unit" where
  "value_check n =
     (if \<not> (v_explicit n \<or> v_optional n)
      then Inl (ValueError (Text (''Uninitialized Input value of type '' @ v_class n)))
      else case v_valid n of
             None \<Rightarrow> Inr ()
           | Some opts \<Rightarrow>
               (case v_value n of
                  None \<Rightarrow> Inl (AttributeError (Text ''value''))
                | Some w \<Rightarrow>
                    if py_in w opts then Inr ()
                    else Inl (ValueError (NotValidOption w opts))))"

text \<open>\<^verbatim>\<open>InputValue.fetch\<close>; \<open>u2i\<close> is \<^verbatim>\<open>unit_to_internal\<close> of the units module.\<close>

definition value_fetch ::
  "(string \<Rightarrow> string \<Rightarrow> pyval \<Rightarrow> error + pyval) \<Rightarrow> vleaf \<Rightarrow> error + pyval" where
  "value_fetch u2i n =
     (case value_check n of
        Inl e \<Rightarrow> Inl e
      | Inr _ \<Rightarrow>
          (case v_value n of
             None \<Rightarrow> Inl (AttributeError (Text ''value''))
           | Some w \<Rightarrow>
               if v_dimension n \<noteq> ''undefined'' then u2i (v_dimension n) (v_units n) w
               else Inr w))"

text \<open>The object as \<^verbatim>\<open>Input.__init__\<close> has it before the default is stored:
  \<open>_explicit\<close> is false and \<open>value\<close> is not assigned (nor is \<open>_valid\<close>, which no
  method reads before the constructor sets it).\<close>

definition value_blank ::
  "string option \<Rightarrow> string option \<Rightarrow> pyval option \<Rightarrow> bool \<Rightarrow> callable \<Rightarrow> vleaf" where
  "value_blank dimension units d opt ty =
     \<lparr> v_class = ''InputValue'',
       v_dimension = (case dimension of None \<Rightarrow> ''undefined'' | Some x \<Rightarrow> x),
       v_units = (case units of None \<Rightarrow> [] | Some u \<Rightarrow> u),
       v_default = d, v_optional = opt, v_explicit = False,
       v_type = ty, v_value = None, v_valid = None \<rparr>"

text \<open>The last statements of \<^verbatim>\<open>InputValue.__init__\<close>: the option list is set, and a
  default that is not in it raises (\<open>has_default\<close> is \<^verbatim>\<open>not default is None\<close>).\<close>

definition value_set_options :: "bool \<Rightarrow> pyval list option \<Rightarrow> vleaf \<Rightarrow> error + vleaf" where
  "value_set_options has_default options n =
     (case options of
        None \<Rightarrow> Inr (n\<lparr>v_valid := None\<rparr>)
      | Some opts \<Rightarrow>
          if has_default \<and> \<not> (case v_default n of None \<Rightarrow> False | Some dv \<Rightarrow> py_in dv opts)
          then Inl (ValueError (Text ''Default value not in option list''))
          else Inr (n\<lparr>v_valid := Some opts\<rparr>))"

text \<open>\<^verbatim>\<open>InputValue.__init__\<close> around \<^verbatim>\<open>Input.__init__\<close>: a missing \<open>dtype\<close> raises,
  the default is stored and \<open>_explicit\<close> reset, then the option list is set. A
  constructor that raises yields no object.\<close>

definition InputValue_init ::
  "string option \<Rightarrow> string option \<Rightarrow> pyval default_arg \<Rightarrow> callable option \<Rightarrow>
   pyval list option \<Rightarrow> error + vleaf" where
  "InputValue_init dimension units dflt dtype options =
     (case dtype of
        None \<Rightarrow> Inl (TypeError (Text ''You must provide dtype''))
      | Some ty \<Rightarrow>
          (let (d, opt) = resolve_default dflt;
               n0 = value_blank dimension units d opt ty
           in case d of
                None \<Rightarrow> value_set_options opt options n0
              | Some dv \<Rightarrow>
                  (case value_store n0 dv of
                     (n1, Some e) \<Rightarrow> Inl e
                   | (n1, None) \<Rightarrow> value_set_options opt options (n1\<lparr>v_explicit := False\<rparr>))))"

section \<open>The text tree\<close>

text \<open>
  An \<^verbatim>\<open>xml_node\<close> of the tree reader: a name, the attributes (a dictionary, listed
  in its iteration order) and the ordered children; the inline text of a tag is the
  child \<open>_text\<close>, whose content is a string.
\<close>

datatype xml = XText string | XNode string "(string \<times> string) list" "(string \<times> xml) list"

fun xml_attribs :: "xml \<Rightarrow> error + (string \<times> string) list" where
  "xml_attribs (XNode nm ats fs) = Inr ats"
| "xml_attribs (XText s) = Inl (AttributeError (Text ''attribs''))"

fun xml_fields :: "xml \<Rightarrow> error + (string \<times> xml) list" where
  "xml_fields (XNode nm ats fs) = Inr fs"
| "xml_fields (XText s) = Inl (AttributeError (Text ''fields''))"

text \<open>The readers \<^verbatim>\<open>read_type\<close> and \<^verbatim>\<open>read_array\<close> of the tree reader are
  parameters: they take the \<open>dtype\<close> and the content, and return a value or raise.\<close>

type_synonym type_reader = "callable \<Rightarrow> xml \<Rightarrow> error + pyval"

text \<open>The two messages of an unknown name, as the source concatenates them.\<close>

definition unknown_attr_msg :: "string \<Rightarrow> string \<Rightarrow> msg" where
  "unknown_attr_msg a nm =
     Text (''Attribute name '' @ [CHR 0x27] @ a @ [CHR 0x27] @
           '' is not a recognized property of '' @ [CHR 0x27] @ nm @ [CHR 0x27] @ '' objects'')"

definition unknown_tag_msg :: "string \<Rightarrow> string \<Rightarrow> msg" where
  "unknown_tag_msg f nm =
     Text (''Tag name '' @ [CHR 0x27] @ f @ [CHR 0x27] @
           '' is not a recognized property of '' @ [CHR 0x27] @ nm @ [CHR 0x27] @ '' objects'')"

text \<open>The keys of the instance dictionary of an \<^verbatim>\<open>InputValue\<close> (its class declares
  no attribute nodes, so none of the entries is a schema node).\<close>

definition value_dict_keys :: "vleaf \<Rightarrow> string list" where
  "value_dict_keys n =
     [''extra'', ''_help'', ''_dimension'', ''units'', ''_default'', ''_optional'',
      ''_explicit'', ''_label'', ''type'', ''_valid''] @
     (if v_value n = None then [] else [''value''])"

text \<open>\<^verbatim>\<open>InputValue.parse\<close>. With no tree the text is read. With a tree, \<open>units\<close> is
  taken from the attributes; the first other attribute raises (\<open>NameError\<close> when the
  instance has no entry of that name, else the entry is not a node); then the first
  child is read.\<close>

definition value_parse :: "type_reader \<Rightarrow> vleaf \<Rightarrow> xml option \<Rightarrow> string \<Rightarrow> vleaf outcome" where
  "value_parse rd n x text =
     (let n1 = n\<lparr>v_explicit := True\<rparr>
      in case x of
           None \<Rightarrow>
             (case rd (v_type n1) (XText text) of
                Inl e \<Rightarrow> (n1, Some e)
              | Inr w \<Rightarrow> (n1\<lparr>v_value := Some w\<rparr>, None))
         | Some t \<Rightarrow>
             (case xml_attribs t of
                Inl e \<Rightarrow> (n1, Some e)
              | Inr ats \<Rightarrow>
                  (let n2 = (case map_of ats ''units'' of
                               None \<Rightarrow> n1 | Some u \<Rightarrow> n1\<lparr>v_units := u\<rparr>)
                   in case filter (\<lambda>a. a \<noteq> ''units'') (map fst ats) of
                        a # _ \<Rightarrow>
                          (if a \<in> set (value_dict_keys n2)
                           then (n2, Some (AttributeError (Text ''store'')))
                           else (n2, Some (NameError
                                   (unknown_attr_msg a (case t of XNode nm _ _ \<Rightarrow> nm | _ \<Rightarrow> [])))))
                      | [] \<Rightarrow>
                          (case xml_fields t of
                             Inl e \<Rightarrow> (n2, Some e)
                           | Inr [] \<Rightarrow> (n2, Some (IndexError (Text ''list index out of range'')))
                           | Inr ((_, c) # _) \<Rightarrow>
                               (case rd (v_type n2) c of
                                  Inl e \<Rightarrow> (n2, Some e)
                                | Inr w \<Rightarrow> (n2\<lparr>v_value := Some w\<rparr>, None))))))"

section \<open>Array leaf: \<^verbatim>\<open>InputArray\<close>\<close>

text \<open>
  A numpy array: its shape and its elements in row-major order. An array that numpy
  built has \<open>prod_list nd_shape = length nd_data\<close>.
\<close>

record ndarray =
  nd_shape :: "nat list"
  nd_data :: "pyval list"

text \<open>\<^verbatim>\<open>value.shape\<close>, a tuple of integers.\<close>

definition shape_tuple :: "ndarray \<Rightarrow> pyval" where
  "shape_tuple a = PTuple (map (\<lambda>d. PInt (int d)) (nd_shape a))"

text \<open>\<^verbatim>\<open>np.array(value, dtype=t).flatten()\<close>: every element is converted by \<open>t\<close>, the
  first failure raises, and the result is one-dimensional.\<close>

fun convert_all :: "callable \<Rightarrow> pyval list \<Rightarrow> error + pyval list" where
  "convert_all t [] = Inr []"
| "convert_all t (x # xs) =
     (case t x of
        Inl e \<Rightarrow> Inl e
      | Inr y \<Rightarrow> (case convert_all t xs of Inl e \<Rightarrow> Inl e | Inr ys \<Rightarrow> Inr (y # ys)))"

definition np_flat :: "callable \<Rightarrow> ndarray \<Rightarrow> error + ndarray" where
  "np_flat t a =
     (case convert_all t (nd_data a) of
        Inl e \<Rightarrow> Inl e
      | Inr ys \<Rightarrow> Inr \<lparr> nd_shape = [length ys], nd_data = ys \<rparr>)"

text \<open>The argument of \<open>reshape\<close> as a list of dimensions: a tuple of integers (a bool
  counts as one), or a single integer.\<close>

fun as_dim :: "pyval \<Rightarrow> error + int" where
  "as_dim (PInt i) = Inr i"
| "as_dim (PBool b) = Inr (if b then 1 else 0)"
| "as_dim _ = Inl (TypeError (Text ''an integer is required''))"

fun as_dims_list :: "pyval list \<Rightarrow> error + int list" where
  "as_dims_list [] = Inr []"
| "as_dims_list (x # xs) =
     (case as_dim x of
        Inl e \<Rightarrow> Inl e
      | Inr d \<Rightarrow> (case as_dims_list xs of Inl e \<Rightarrow> Inl e | Inr ds \<Rightarrow> Inr (d # ds)))"

fun as_dims :: "pyval \<Rightarrow> error + int list" where
  "as_dims (PTuple xs) = as_dims_list xs"
| "as_dims v = (case as_dim v of Inl e \<Rightarrow> Inl e | Inr d \<Rightarrow> Inr [d])"

text \<open>
  \<^verbatim>\<open>a.reshape(dims)\<close>. A negative entry is the one dimension numpy infers; two of them
  raise. The product of the others must divide the size (and not be zero), or, with
  no negative entry, equal it; otherwise numpy raises \<open>ValueError\<close>.
\<close>

definition np_reshape :: "ndarray \<Rightarrow> int list \<Rightarrow> error + ndarray" where
  "np_reshape a ds =
     (let size = int (length (nd_data a));
          known = prod_list (filter (\<lambda>d. 0 \<le> d) ds);
          unknown = length (filter (\<lambda>d. d < 0) ds)
      in if unknown > 1
         then Inl (ValueError (Text ''can only specify one unknown dimension''))
         else if unknown = 1
         then (if known = 0 \<or> size mod known \<noteq> 0
               then Inl (ValueError (Text ''total size of new array must be unchanged''))
               else Inr \<lparr> nd_shape = map (\<lambda>d. if d < 0 then nat (size div known) else nat d) ds,
                          nd_data = nd_data a \<rparr>)
         else (if size \<noteq> known
               then Inl (ValueError (Text ''total size of new array must be unchanged''))
               else Inr \<lparr> nd_shape = map nat ds, nd_data = nd_data a \<rparr>))"

text \<open>The instance attributes of an \<^verbatim>\<open>InputArray\<close>; \<open>a_shape\<close> is the attribute node
  \<open>shape\<close> that the class declares.\<close>

record aleaf =
  a_dimension :: string
  a_units :: string
  a_default :: "ndarray option"
  a_optional :: bool
  a_explicit :: bool
  a_type :: callable
  a_value :: "ndarray option"
  a_shape :: vleaf

type_synonym unit_conv = "string \<Rightarrow> string \<Rightarrow> pyval \<Rightarrow> error + pyval"

text \<open>The tuple \<open>(0,)\<close>, the shape that stands for "not given".\<close>

definition shape0 :: pyval where
  "shape0 = PTuple [PInt 0]"

text \<open>\<^verbatim>\<open>InputArray.store\<close>, statement by statement; each may raise and leaves what was
  assigned before it.\<close>

definition array_store :: "unit_conv \<Rightarrow> aleaf \<Rightarrow> ndarray \<Rightarrow> aleaf outcome" where
  "array_store u2i n v =
     (let n1 = n\<lparr>a_explicit := True\<rparr>;
          (s1, r1) = value_store (a_shape n1) (shape_tuple v);
          n2 = n1\<lparr>a_shape := s1\<rparr>
      in case r1 of
           Some e \<Rightarrow> (n2, Some e)
         | None \<Rightarrow>
             (case np_flat (a_type n2) v of
                Inl e \<Rightarrow> (n2, Some e)
              | Inr flat \<Rightarrow>
                  (let n3 = n2\<lparr>a_value := Some flat\<rparr>
                   in case value_fetch u2i (a_shape n3) of
                        Inl e \<Rightarrow> (n3, Some e)
                      | Inr sh \<Rightarrow>
                          if py_eq sh shape0
                          then (let (s2, r2) = value_store (a_shape n3)
                                                 (PTuple [PInt (int (length (nd_data flat)))])
                                in (n3\<lparr>a_shape := s2\<rparr>, r2))
                          else (n3, None))))"

text \<open>\<^verbatim>\<open>InputArray.fetch\<close>; \<open>scale d u a\<close> is
  \<^verbatim>\<open>a * unit_to_internal(d, u, 1.0)\<close>.\<close>

definition array_fetch ::
  "unit_conv \<Rightarrow> (string \<Rightarrow> string \<Rightarrow> ndarray \<Rightarrow> error + ndarray) \<Rightarrow> aleaf \<Rightarrow> error + ndarray" where
  "array_fetch u2i scale n =
     (if \<not> (a_explicit n \<or> a_optional n)
      then Inl (ValueError (Text ''Uninitialized Input value of type InputArray''))
      else case value_fetch u2i (a_shape n) of
             Inl e \<Rightarrow> Inl e
           | Inr sh \<Rightarrow>
               (case a_value n of
                  None \<Rightarrow> Inl (AttributeError (Text ''value''))
                | Some a \<Rightarrow>
                    (case (if py_eq sh shape0
                           then Inr \<lparr> nd_shape = [0], nd_data = [] \<rparr>
                           else (case as_dims sh of
                                   Inl e \<Rightarrow> Inl e
                                 | Inr ds \<Rightarrow> np_reshape a ds)) of
                       Inl e \<Rightarrow> Inl e
                     | Inr r \<Rightarrow>
                         if a_dimension n \<noteq> ''undefined''
                         then scale (a_dimension n) (a_units n) r
                         else Inr r)))"

text \<open>\<^verbatim>\<open>InputArray.__init__\<close> around \<^verbatim>\<open>Input.__init__\<close>: the \<open>shape\<close> node is built
  with its default \<open>(0,)\<close>, then the default is stored and \<open>_explicit\<close> reset.\<close>

definition array_blank ::
  "string option \<Rightarrow> string option \<Rightarrow> ndarray option \<Rightarrow> bool \<Rightarrow> callable \<Rightarrow> vleaf \<Rightarrow> aleaf" where
  "array_blank dimension units d opt ty sh =
     \<lparr> a_dimension = (case dimension of None \<Rightarrow> ''undefined'' | Some x \<Rightarrow> x),
       a_units = (case units of None \<Rightarrow> [] | Some u \<Rightarrow> u),
       a_default = d, a_optional = opt, a_explicit = False,
       a_type = ty, a_value = None, a_shape = sh \<rparr>"

definition InputArray_init ::
  "unit_conv \<Rightarrow> string option \<Rightarrow> string option \<Rightarrow> ndarray default_arg \<Rightarrow> callable option \<Rightarrow>
   error + aleaf" where
  "InputArray_init u2i dimension units dflt dtype =
     (case dtype of
        None \<Rightarrow> Inl (TypeError (Text ''You must provide dtype''))
      | Some ty \<Rightarrow>
          (let (d, opt) = resolve_default dflt
           in case InputValue_init None None (Literal shape0) (Some py_tuple) None of
                Inl e \<Rightarrow> Inl e
              | Inr sh \<Rightarrow>
                  (let n0 = array_blank dimension units d opt ty sh
                   in case d of
                        None \<Rightarrow> Inr n0
                      | Some dv \<Rightarrow>
                          (case array_store u2i n0 dv of
                             (_, Some e) \<Rightarrow> Inl e
                           | (n1, None) \<Rightarrow> Inr (n1\<lparr>a_explicit := False\<rparr>)))))"

text \<open>\<^verbatim>\<open>InputArray.parse\<close>; \<open>rda\<close> is \<^verbatim>\<open>read_array\<close>. The first attribute other than
  \<open>shape\<close> and \<open>units\<close> raises: \<open>NameError\<close> when the instance has no entry of that
  name; else the entry's \<open>store\<close> is called, which only the node \<open>shape\<close> has, and
  \<open>shape\<close> is skipped.\<close>

definition array_dict_keys :: "aleaf \<Rightarrow> string list" where
  "array_dict_keys n =
     [''extra'', ''_help'', ''_dimension'', ''units'', ''_default'', ''_optional'',
      ''_explicit'', ''_label'', ''type'', ''shape''] @
     (if a_value n = None then [] else [''value''])"

definition array_parse ::
  "type_reader \<Rightarrow> (callable \<Rightarrow> xml \<Rightarrow> error + ndarray) \<Rightarrow> aleaf \<Rightarrow> xml option \<Rightarrow> string \<Rightarrow>
   aleaf outcome" where
  "array_parse rd rda n x text =
     (let n1 = n\<lparr>a_explicit := True\<rparr>
      in case x of
           None \<Rightarrow>
             (case rda (a_type n1) (XText text) of
                Inl e \<Rightarrow> (n1, Some e)
              | Inr a \<Rightarrow> (n1\<lparr>a_value := Some a\<rparr>, None))
         | Some t \<Rightarrow>
             (case xml_fields t of
                Inl e \<Rightarrow> (n1, Some e)
              | Inr [] \<Rightarrow> (n1, Some (IndexError (Text ''list index out of range'')))
              | Inr ((f0, c) # _) \<Rightarrow>
                  if f0 \<noteq> ''_text''
                  then (n1, Some (ValueError (Text ''InputArray should not contain further XML tags'')))
                  else
                    (case rda (a_type n1) c of
                       Inl e \<Rightarrow> (n1, Some e)
                     | Inr a \<Rightarrow>
                         (let n2 = n1\<lparr>a_value := Some a\<rparr>;
                              ats = (case t of XNode _ ats _ \<Rightarrow> ats | _ \<Rightarrow> []);
                              nm = (case t of XNode nm _ _ \<Rightarrow> nm | _ \<Rightarrow> []);
                              n3 = (case map_of ats ''units'' of
                                      None \<Rightarrow> n2 | Some u \<Rightarrow> n2\<lparr>a_units := u\<rparr>);
                              shp = (case map_of ats ''shape'' of
                                       None \<Rightarrow> Inr (shape_tuple a)
                                     | Some st \<Rightarrow> rd py_tuple (XText st))
                          in case shp of
                               Inl e \<Rightarrow> (n3, Some e)
                             | Inr sv \<Rightarrow>
                                 (let (s1, r1) = value_store (a_shape n3) sv;
                                      n4 = n3\<lparr>a_shape := s1\<rparr>
                                  in case r1 of
                                       Some e \<Rightarrow> (n4, Some e)
                                     | None \<Rightarrow>
                                         (case filter (\<lambda>k. k \<noteq> ''shape'' \<and> k \<noteq> ''units'')
                                                 (map fst ats) of
                                            [] \<Rightarrow> (n4, None)
                                          | k # _ \<Rightarrow>
                                              if k \<in> set (array_dict_keys n4)
                                              then (n4, Some (AttributeError (Text ''store'')))
                                              else (n4, Some (NameError (unknown_attr_msg k nm)))))))))"

section \<open>Composite node: \<^verbatim>\<open>Input\<close>\<close>

text \<open>
  A schema node is a scalar leaf, an array leaf, or a composite. Of a composite the
  methods below read and write \<open>_optional\<close>, \<open>_explicit\<close>, the child nodes that
  \<^verbatim>\<open>__init__\<close> built for the names of \<open>attribs\<close> and of \<open>fields\<close> (each in the
  iteration order of its dictionary; the names of one kind are distinct), the
  templates of \<open>dynamic\<close>, and \<open>extra\<close>. A template \<open>(cls, kwargs)\<close> is given by what
  \<open>cls(**kwargs)\<close> yields: a fresh node, or the exception of the constructor.
\<close>

datatype node =
    ValueN vleaf
  | ArrayN aleaf
  | InputN bool bool "(string \<times> node) list" "(string \<times> node) list"
      "(string \<times> (error + node)) list" "(string \<times> node) list"

type_synonym array_reader = "callable \<Rightarrow> xml \<Rightarrow> error + ndarray"

fun node_explicit :: "node \<Rightarrow> bool" where
  "node_explicit (ValueN l) = v_explicit l"
| "node_explicit (ArrayN l) = a_explicit l"
| "node_explicit (InputN opt ex ats fs dyn extra) = ex"

fun node_optional :: "node \<Rightarrow> bool" where
  "node_optional (ValueN l) = v_optional l"
| "node_optional (ArrayN l) = a_optional l"
| "node_optional (InputN opt ex ats fs dyn extra) = opt"

text \<open>\<^verbatim>\<open>self.__dict__[k] = c\<close> for a declared name \<open>k\<close>.\<close>

fun set_child :: "string \<Rightarrow> node \<Rightarrow> (string \<times> node) list \<Rightarrow> (string \<times> node) list" where
  "set_child k c [] = []"
| "set_child k c ((k', c') # rest) =
     (if k' = k then (k', c) # rest else (k', c') # set_child k c rest)"

text \<open>\<^verbatim>\<open>parse(text=v)\<close> on a child, as the attribute loop calls it: a leaf reads the
  text; a composite clears \<open>extra\<close>, sets \<open>_explicit\<close> and raises for want of a tree.\<close>

fun parse_text :: "type_reader \<Rightarrow> array_reader \<Rightarrow> node \<Rightarrow> string \<Rightarrow> node outcome" where
  "parse_text rd rda (ValueN l) text =
     (case value_parse rd l None text of (l', r) \<Rightarrow> (ValueN l', r))"
| "parse_text rd rda (ArrayN l) text =
     (case array_parse rd rda l None text of (l', r) \<Rightarrow> (ArrayN l', r))"
| "parse_text rd rda (InputN opt ex ats fs dyn extra) text =
     (InputN opt True ats fs dyn [],
      Some (ValueError (Text ''Input.parse should be called with a xml tag'')))"

text \<open>The first loop of \<^verbatim>\<open>Input.parse\<close>, over the attributes of the tree.\<close>

fun parse_attribs ::
  "type_reader \<Rightarrow> array_reader \<Rightarrow> string \<Rightarrow> (string \<times> node) list \<Rightarrow> (string \<times> string) list \<Rightarrow>
   (string \<times> node) list outcome" where
  "parse_attribs rd rda nm ats [] = (ats, None)"
| "parse_attribs rd rda nm ats ((a, v) # rest) =
     (case map_of ats a of
        Some c \<Rightarrow>
          (case parse_text rd rda c v of
             (c', Some e) \<Rightarrow> (set_child a c' ats, Some e)
           | (c', None) \<Rightarrow> parse_attribs rd rda nm (set_child a c' ats) rest)
      | None \<Rightarrow>
          if a = ''_text'' then parse_attribs rd rda nm ats rest
          else (ats, Some (NameError (unknown_attr_msg a nm))))"

text \<open>The two closing loops of \<^verbatim>\<open>Input.parse\<close>: the first declared name whose node
  is neither explicit nor optional.\<close>

definition mandatory_msg :: "string \<Rightarrow> string \<Rightarrow> string \<Rightarrow> msg" where
  "mandatory_msg what a nm =
     Text (what @ '' name '' @ [CHR 0x27] @ a @ [CHR 0x27] @
           '' is mandatory and was not found in the input for the property '' @ nm)"

fun first_missing :: "(string \<times> node) list \<Rightarrow> string option" where
  "first_missing [] = None"
| "first_missing ((k, c) # rest) =
     (if \<not> (node_explicit c \<or> node_optional c) then Some k else first_missing rest)"

definition check_mandatory ::
  "string \<Rightarrow> (string \<times> node) list \<Rightarrow> (string \<times> node) list \<Rightarrow> error option" where
  "check_mandatory nm ats fs =
     (case first_missing ats of
        Some a \<Rightarrow> Some (ValueError (mandatory_msg ''Attribute'' a nm))
      | None \<Rightarrow>
          (case first_missing fs of
             Some f \<Rightarrow> Some (ValueError (mandatory_msg ''Field'' f nm))
           | None \<Rightarrow> None))"

text \<open>
  \<^verbatim>\<open>Input.parse\<close> on a tree, with the \<open>parse\<close> of the leaves for the leaf nodes
  (\<open>adapt\<close> does nothing). \<open>parse_children\<close> is the loop over the children of the
  tree; its state is the field nodes and \<open>extra\<close>. \<^verbatim>\<open>Input.extend\<close> is the branch of
  a dynamic tag: the new node is appended only when its own \<open>parse\<close> returns.
\<close>

fun node_parse :: "type_reader \<Rightarrow> array_reader \<Rightarrow> node \<Rightarrow> xml \<Rightarrow> node outcome"
  and parse_children ::
    "type_reader \<Rightarrow> array_reader \<Rightarrow> string \<Rightarrow> (string \<times> (error + node)) list \<Rightarrow>
     (string \<times> node) list \<Rightarrow> (string \<times> node) list \<Rightarrow> (string \<times> xml) list \<Rightarrow>
     ((string \<times> node) list \<times> (string \<times> node) list) outcome" where
  "node_parse rd rda (ValueN l) t =
     (case value_parse rd l (Some t) [] of (l', r) \<Rightarrow> (ValueN l', r))"
| "node_parse rd rda (ArrayN l) t =
     (case array_parse rd rda l (Some t) [] of (l', r) \<Rightarrow> (ArrayN l', r))"
| "node_parse rd rda (InputN opt ex ats fs dyn extra) (XText s) =
     (InputN opt True ats fs dyn [], Some (AttributeError (Text ''attribs'')))"
| "node_parse rd rda (InputN opt ex ats fs dyn extra) (XNode nm xats xfs) =
     (case parse_attribs rd rda nm ats xats of
        (ats', Some e) \<Rightarrow> (InputN opt True ats' fs dyn [], Some e)
      | (ats', None) \<Rightarrow>
          (case parse_children rd rda nm dyn fs [] xfs of
             ((fs', extra'), Some e) \<Rightarrow> (InputN opt True ats' fs' dyn extra', Some e)
           | ((fs', extra'), None) \<Rightarrow>
               (InputN opt True ats' fs' dyn extra', check_mandatory nm ats' fs')))"
| "parse_children rd rda nm dyn fs extra [] = ((fs, extra), None)"
| "parse_children rd rda nm dyn fs extra ((f, v) # rest) =
     (case map_of fs f of
        Some c \<Rightarrow>
          (case node_parse rd rda c v of
             (c', Some e) \<Rightarrow> ((set_child f c' fs, extra), Some e)
           | (c', None) \<Rightarrow> parse_children rd rda nm dyn (set_child f c' fs) extra rest)
      | None \<Rightarrow>
          if f = ''_text'' then parse_children rd rda nm dyn fs extra rest
          else
            (case map_of dyn f of
               Some (Inl e) \<Rightarrow> ((fs, extra), Some e)
             | Some (Inr fresh) \<Rightarrow>
                 (case node_parse rd rda fresh v of
                    (c', Some e) \<Rightarrow> ((fs, extra), Some e)
                  | (c', None) \<Rightarrow> parse_children rd rda nm dyn fs (extra @ [(f, c')]) rest)
             | None \<Rightarrow> ((fs, extra), Some (NameError (unknown_tag_msg f nm)))))"

text \<open>\<^verbatim>\<open>Input.parse(xml, text)\<close>: without a tree it raises, after clearing \<open>extra\<close> and
  setting \<open>_explicit\<close> (a leaf reads the text instead).\<close>

definition Input_parse ::
  "type_reader \<Rightarrow> array_reader \<Rightarrow> node \<Rightarrow> xml option \<Rightarrow> string \<Rightarrow> node outcome" where
  "Input_parse rd rda n x text =
     (case x of None \<Rightarrow> parse_text rd rda n text | Some t \<Rightarrow> node_parse rd rda n t)"

section \<open>Variant dispatcher: \<^verbatim>\<open>InputMotionBase\<close> and \<^verbatim>\<open>InputMotion\<close>\<close>

text \<open>
  The domain objects of \<^verbatim>\<open>ipi.engine.motion\<close>, by their exact class, each with the
  keyword arguments its constructor is called with in \<^verbatim>\<open>fetch\<close>: the two common
  attributes \<open>fixcom\<close> and \<open>fixatoms\<close>, then the file reference of a \<open>Replay\<close> or the
  options of the kind. \<open>Motion()\<close> is built without arguments and \<open>store\<close> reads
  nothing from it. \<open>OtherMover\<close> is an object of any other class.
\<close>

type_synonym kwargs = "(string \<times> pyval) list"

datatype motion =
    Motion
  | Replay pyval ndarray kwargs
  | GeopMotion pyval ndarray kwargs
  | NEBMover pyval ndarray kwargs
  | Dynamics pyval ndarray kwargs
  | DynMatrixMover pyval ndarray kwargs
  | AlchemyMC pyval ndarray kwargs
  | MultiMotion "motion list"
  | OtherMover string

text \<open>
  Modelled from the spec: the classes \<^verbatim>\<open>InputGeop\<close>, \<^verbatim>\<open>InputNEB\<close>,
  \<^verbatim>\<open>InputDynamics\<close>, \<^verbatim>\<open>InputDynMatrix\<close>, \<^verbatim>\<open>InputAlchemy\<close> and
  \<^verbatim>\<open>InputInitFile\<close> are not among the sources. A slot is a composite kind whose
  \<open>store\<close> copies the relevant attributes of the domain object into the node and
  marks it explicit, and whose \<open>fetch\<close> runs \<open>check\<close> and returns them as keyword
  values; storing the default of the declaration leaves the node not explicit.
\<close>

record slot =
  s_optional :: bool
  s_explicit :: bool
  s_config :: kwargs

definition slot_init :: "kwargs \<Rightarrow> slot" where
  "slot_init d = \<lparr> s_optional = True, s_explicit = False, s_config = d \<rparr>"

definition slot_store :: "slot \<Rightarrow> kwargs \<Rightarrow> slot outcome" where
  "slot_store sl cfg = (sl\<lparr>s_explicit := True, s_config := cfg\<rparr>, None)"


text \<open>
  Modelled from the spec: the class \<^verbatim>\<open>InputAttribute\<close> is not among the sources. The
  discriminator is an enumerated scalar leaf: an \<^verbatim>\<open>InputValue\<close> under another class
  name.
\<close>

definition InputAttribute_init ::
  "pyval default_arg \<Rightarrow> callable option \<Rightarrow> pyval list option \<Rightarrow> error + vleaf" where
  "InputAttribute_init dflt dtype options =
     (case InputValue_init None None dflt dtype options of
        Inl e \<Rightarrow> Inl e
      | Inr n \<Rightarrow> Inr (n\<lparr>v_class := ''InputAttribute''\<rparr>))"

text \<open>The options of \<open>mode\<close>. \<^verbatim>\<open>copy\<close> is shallow, so the \<open>append\<close> in the body of
  \<^verbatim>\<open>InputMotion\<close> extends the one list that both classes declare.\<close>

definition mode_options :: "pyval list" where
  "mode_options =
     map PStr [''vibrations'', ''minimize'', ''replay'', ''neb'', ''dynamics'', ''alchemy'',
               ''dummy'', ''multi'']"

text \<open>
  An \<^verbatim>\<open>InputMotionBase\<close>: its attribute node, its eight field nodes, and the two
  flags. Its class has no dynamic template and its \<open>store\<close> appends nothing, so its
  \<open>extra\<close> stays empty and is left out; \<^verbatim>\<open>InputMotion\<close> adds \<open>extra\<close>, the list of
  \<open>("motion", node)\<close> pairs.
\<close>

record mbase =
  b_optional :: bool
  b_explicit :: bool
  b_mode :: vleaf
  b_fixcom :: vleaf
  b_fixatoms :: aleaf
  b_optimizer :: slot
  b_neb_optimizer :: slot
  b_dynamics :: slot
  b_file :: slot
  b_vibrations :: slot
  b_alchemy :: slot

record minput = mbase +
  m_extra :: "(string \<times> mbase) list"

text \<open>One statement after another: the second runs only when the first did not raise.\<close>

definition and_then :: "'s outcome \<Rightarrow> ('s \<Rightarrow> 's outcome) \<Rightarrow> 's outcome" where
  "and_then r f = (case r of (s, Some e) \<Rightarrow> (s, Some e) | (s, None) \<Rightarrow> f s)"

definition store_mode :: "string \<Rightarrow> 'a mbase_scheme \<Rightarrow> 'a mbase_scheme outcome" where
  "store_mode tag n = (case value_store (b_mode n) (PStr tag) of (m, r) \<Rightarrow> (n\<lparr>b_mode := m\<rparr>, r))"

definition store_fixcom :: "pyval \<Rightarrow> 'a mbase_scheme \<Rightarrow> 'a mbase_scheme outcome" where
  "store_fixcom v n = (case value_store (b_fixcom n) v of (m, r) \<Rightarrow> (n\<lparr>b_fixcom := m\<rparr>, r))"

definition store_fixatoms ::
  "unit_conv \<Rightarrow> ndarray \<Rightarrow> 'a mbase_scheme \<Rightarrow> 'a mbase_scheme outcome" where
  "store_fixatoms u2i v n =
     (case array_store u2i (b_fixatoms n) v of (m, r) \<Rightarrow> (n\<lparr>b_fixatoms := m\<rparr>, r))"

definition store_common ::
  "unit_conv \<Rightarrow> pyval \<Rightarrow> ndarray \<Rightarrow> 'a mbase_scheme \<Rightarrow> 'a mbase_scheme outcome" where
  "store_common u2i fc fa n = and_then (store_fixcom fc n) (store_fixatoms u2i fa)"

text \<open>\<^verbatim>\<open>InputMotionBase.store\<close>: the chain on the exact class sets the mode, fills the
  slot of the kind and sets \<open>tsc\<close>; then \<open>tsc = 0\<close> stores the file, \<open>tsc > 0\<close> the two
  common attributes, and \<open>tsc = -1\<close> nothing.\<close>

fun motionbase_store :: "unit_conv \<Rightarrow> 'a mbase_scheme \<Rightarrow> motion \<Rightarrow> 'a mbase_scheme outcome" where
  "motionbase_store u2i n Motion = store_mode ''dummy'' (n\<lparr>b_explicit := True\<rparr>)"
| "motionbase_store u2i n (Replay fc fa intraj) =
     and_then (store_mode ''replay'' (n\<lparr>b_explicit := True\<rparr>))
       (\<lambda>n. case slot_store (b_file n) intraj of (sl, r) \<Rightarrow> (n\<lparr>b_file := sl\<rparr>, r))"
| "motionbase_store u2i n (GeopMotion fc fa opts) =
     and_then (and_then (store_mode ''minimize'' (n\<lparr>b_explicit := True\<rparr>))
       (\<lambda>n. case slot_store (b_optimizer n) opts of (sl, r) \<Rightarrow> (n\<lparr>b_optimizer := sl\<rparr>, r)))
       (store_common u2i fc fa)"
| "motionbase_store u2i n (NEBMover fc fa opts) =
     and_then (and_then (store_mode ''neb'' (n\<lparr>b_explicit := True\<rparr>))
       (\<lambda>n. case slot_store (b_neb_optimizer n) opts of (sl, r) \<Rightarrow> (n\<lparr>b_neb_optimizer := sl\<rparr>, r)))
       (store_common u2i fc fa)"
| "motionbase_store u2i n (Dynamics fc fa opts) =
     and_then (and_then (store_mode ''dynamics'' (n\<lparr>b_explicit := True\<rparr>))
       (\<lambda>n. case slot_store (b_dynamics n) opts of (sl, r) \<Rightarrow> (n\<lparr>b_dynamics := sl\<rparr>, r)))
       (store_common u2i fc fa)"
| "motionbase_store u2i n (DynMatrixMover fc fa opts) =
     and_then (and_then (store_mode ''vibrations'' (n\<lparr>b_explicit := True\<rparr>))
       (\<lambda>n. case slot_store (b_vibrations n) opts of (sl, r) \<Rightarrow> (n\<lparr>b_vibrations := sl\<rparr>, r)))
       (store_common u2i fc fa)"
| "motionbase_store u2i n (AlchemyMC fc fa opts) =
     and_then (and_then (store_mode ''alchemy'' (n\<lparr>b_explicit := True\<rparr>))
       (\<lambda>n. case slot_store (b_alchemy n) opts of (sl, r) \<Rightarrow> (n\<lparr>b_alchemy := sl\<rparr>, r)))
       (store_common u2i fc fa)"
| "motionbase_store u2i n _ =
     (n\<lparr>b_explicit := True\<rparr>, Some (ValueError CannotStore))"

text \<open>Evaluating one expression after another: the first exception ends it.\<close>

definition bind_e :: "error + 'a \<Rightarrow> ('a \<Rightarrow> error + 'b) \<Rightarrow> error + 'b" where
  "bind_e r f = (case r of Inl e \<Rightarrow> Inl e | Inr x \<Rightarrow> f x)"




text \<open>
  The child nodes that \<^verbatim>\<open>Input.__init__\<close> builds from the declarations of
  \<^verbatim>\<open>InputMotionBase\<close>: \<open>fixcom\<close> (bool, default \<open>True\<close>), \<open>fixatoms\<close> (int array,
  default \<open>np.zeros(0, int)\<close>), the slots (default \<open>{}\<close>, and for \<open>file\<close> the
  descriptor of \<open>InitFile(mode="xyz")\<close>) and the attribute \<open>mode\<close> (str, no default,
  with the options). \<open>fmt\<close> and \<open>rdi\<close> are the parameters of \<open>str\<close> and \<open>int\<close>.
\<close>

definition motion_children ::
  "(pyval \<Rightarrow> string) \<Rightarrow> (string \<Rightarrow> int option) \<Rightarrow> unit_conv \<Rightarrow> bool \<Rightarrow> error + mbase" where
  "motion_children fmt rdi u2i opt =
     bind_e (InputValue_init None None (Literal (PBool True)) (Some py_bool) None) (\<lambda>fixcom.
     bind_e (InputArray_init u2i None None (Literal \<lparr> nd_shape = [0], nd_data = [] \<rparr>)
               (Some (py_int rdi))) (\<lambda>fixatoms.
     bind_e (InputAttribute_init NoDefault (Some (py_str fmt)) (Some mode_options)) (\<lambda>mode.
       Inr \<lparr> b_optional = opt, b_explicit = False, b_mode = mode, b_fixcom = fixcom,
             b_fixatoms = fixatoms, b_optimizer = slot_init [], b_neb_optimizer = slot_init [],
             b_dynamics = slot_init [], b_file = slot_init [(''mode'', PStr ''xyz'')],
             b_vibrations = slot_init [], b_alchemy = slot_init [] \<rparr>)))"

text \<open>\<^verbatim>\<open>InputMotionBase(default=...)\<close>, which is \<^verbatim>\<open>Input.__init__\<close>.\<close>

definition InputMotionBase_init ::
  "(pyval \<Rightarrow> string) \<Rightarrow> (string \<Rightarrow> int option) \<Rightarrow> unit_conv \<Rightarrow> motion default_arg \<Rightarrow>
   error + mbase" where
  "InputMotionBase_init fmt rdi u2i dflt =
     (let (d, opt) = resolve_default dflt
      in bind_e (motion_children fmt rdi u2i opt) (\<lambda>n0.
           case d of
             None \<Rightarrow> Inr n0
           | Some sc \<Rightarrow>
               (case motionbase_store u2i n0 sc of
                  (_, Some e) \<Rightarrow> Inl e
                | (n1, None) \<Rightarrow> Inr (n1\<lparr>b_explicit := False\<rparr>))))"

text \<open>The loop of \<^verbatim>\<open>InputMotion.store\<close> over \<open>motion.mlist\<close>: a fresh
  \<^verbatim>\<open>InputMotionBase()\<close> stores the sub-object and is appended to \<open>extra\<close>.\<close>

fun store_list ::
  "(pyval \<Rightarrow> string) \<Rightarrow> (string \<Rightarrow> int option) \<Rightarrow> unit_conv \<Rightarrow> minput \<Rightarrow> motion list \<Rightarrow>
   minput outcome" where
  "store_list fmt rdi u2i n [] = (n, None)"
| "store_list fmt rdi u2i n (m # ms) =
     (case InputMotionBase_init fmt rdi u2i NoDefault of
        Inl e \<Rightarrow> (n, Some e)
      | Inr im \<Rightarrow>
          (case motionbase_store u2i im m of
             (_, Some e) \<Rightarrow> (n, Some e)
           | (im', None) \<Rightarrow>
               store_list fmt rdi u2i (n\<lparr>m_extra := m_extra n @ [(''motion'', im')]\<rparr>) ms))"

text \<open>\<^verbatim>\<open>InputMotion.store\<close>.\<close>

fun minput_store ::
  "(pyval \<Rightarrow> string) \<Rightarrow> (string \<Rightarrow> int option) \<Rightarrow> unit_conv \<Rightarrow> minput \<Rightarrow> motion \<Rightarrow>
   minput outcome" where
  "minput_store fmt rdi u2i n (MultiMotion ml) =
     and_then (store_mode ''multi'' n) (\<lambda>n. store_list fmt rdi u2i n ml)"
| "minput_store fmt rdi u2i n sc = motionbase_store u2i n sc"



text \<open>\<^verbatim>\<open>InputMotion(default=...)\<close>.\<close>

definition InputMotion_init ::
  "(pyval \<Rightarrow> string) \<Rightarrow> (string \<Rightarrow> int option) \<Rightarrow> unit_conv \<Rightarrow> motion default_arg \<Rightarrow>
   error + minput" where
  "InputMotion_init fmt rdi u2i dflt =
     (let (d, opt) = resolve_default dflt
      in bind_e (motion_children fmt rdi u2i opt) (\<lambda>b.
           let n0 = mbase.extend b \<lparr> m_extra = [] \<rparr>
           in case d of
                None \<Rightarrow> Inr n0
              | Some sc \<Rightarrow>
                  (case minput_store fmt rdi u2i n0 sc of
                     (_, Some e) \<Rightarrow> Inl e
                   | (n1, None) \<Rightarrow> Inr (n1\<lparr>b_explicit := False\<rparr>))))"

text \<open>The base \<^verbatim>\<open>Input.__init__\<close> with \<^verbatim>\<open>Input.store\<close>, for a composite whose class
  overrides neither: \<open>fs\<close>, \<open>ats\<close> and \<open>dyn\<close> are what the declarations build, fields
  first. \<^verbatim>\<open>Input.store\<close> only sets \<open>_explicit\<close>.\<close>

fun set_explicit :: "bool \<Rightarrow> node \<Rightarrow> node" where
  "set_explicit b (ValueN l) = ValueN (l\<lparr>v_explicit := b\<rparr>)"
| "set_explicit b (ArrayN l) = ArrayN (l\<lparr>a_explicit := b\<rparr>)"
| "set_explicit b (InputN opt ex ats fs dyn extra) = InputN opt b ats fs dyn extra"

definition Input_store :: "node \<Rightarrow> node outcome" where
  "Input_store n = (set_explicit True n, None)"

fun first_error :: "(string \<times> (error + node)) list \<Rightarrow> error + (string \<times> node) list" where
  "first_error [] = Inr []"
| "first_error ((k, Inl e) # rest) = Inl e"
| "first_error ((k, Inr c) # rest) =
     bind_e (first_error rest) (\<lambda>cs. Inr ((k, c) # cs))"

definition Input_init ::
  "'d default_arg \<Rightarrow> (string \<times> (error + node)) list \<Rightarrow> (string \<times> (error + node)) list \<Rightarrow>
   (string \<times> (error + node)) list \<Rightarrow> error + node" where
  "Input_init dflt fs ats dyn =
     (let (d, opt) = resolve_default dflt
      in bind_e (first_error fs) (\<lambda>fs'.
         bind_e (first_error ats) (\<lambda>ats'.
           let n0 = InputN opt False ats' fs' dyn []
           in case d of
                None \<Rightarrow> Inr n0
              | Some dv \<Rightarrow>
                  (case Input_store n0 of
                     (_, Some e) \<Rightarrow> Inl e
                   | (n1, None) \<Rightarrow> Inr (set_explicit False n1)))))"

text \<open>The node \<open>shape\<close> as \<^verbatim>\<open>InputArray\<close> declares it: a tuple leaf without options
  and without a dimension. \<open>store\<close> and \<open>parse\<close> keep it so.\<close>

definition plain_shape :: "vleaf \<Rightarrow> bool" where
  "plain_shape sh = (v_type sh = py_tuple \<and> v_valid sh = None \<and> v_dimension sh = ''undefined'')"

text \<open>The test of the closing loops of \<^verbatim>\<open>Input.parse\<close> on a child node:
  \<^verbatim>\<open>v._explicit or v._optional\<close>.\<close>

definition present :: "node \<Rightarrow> bool" where
  "present c = (node_explicit c \<or> node_optional c)"

section \<open>Vocabulary of the round trip of the dispatcher\<close>







section \<open>Properties of the constructors and of \<open>store\<close>\<close>

lemma resolve_default_optional:
  "snd (resolve_default dflt) = (dflt \<noteq> NoDefault)"
  by (cases dflt) simp_all

lemma value_store_eq:
  "value_store n v =
     (case v_type n v of
        Inl e \<Rightarrow> (n\<lparr>v_explicit := True\<rparr>, Some e)
      | Inr w \<Rightarrow> (n\<lparr>v_explicit := True, v_value := Some w\<rparr>, None))"
  by (simp add: value_store_def Let_def split: sum.splits)

lemma value_store_optional [simp]: "v_optional (fst (value_store n v)) = v_optional n"
  by (simp add: value_store_eq split: sum.split)

lemma value_set_options_Inr:
  "value_set_options h options n = Inr n' \<Longrightarrow> n' = n\<lparr>v_valid := options\<rparr>"
  by (cases options) (simp_all add: value_set_options_def split: if_splits)

lemma init_value_form:
  assumes "InputValue_init dim units dflt (Some ty) options = Inr n"
    and r: "resolve_default dflt = (d, opt)"
  shows "n = (case d of None \<Rightarrow> value_blank dim units d opt ty
              | Some dv \<Rightarrow> (fst (value_store (value_blank dim units d opt ty) dv))
                             \<lparr>v_explicit := False\<rparr>)\<lparr>v_valid := options\<rparr>"
proof (cases d)
  case None
  then show ?thesis using assms
    by (simp add: InputValue_init_def value_set_options_Inr)
next
  case (Some dv)
  obtain n1 res where st: "value_store (value_blank dim units d opt ty) dv = (n1, res)"
    by (cases "value_store (value_blank dim units d opt ty) dv")
  show ?thesis using assms Some st
    by (cases res) (simp_all add: InputValue_init_def value_set_options_Inr)
qed

lemma init_value_default:
  assumes "InputValue_init dim units dflt dtype options = Inr n"
  shows "\<not> v_explicit n" and "v_optional n = (dflt \<noteq> NoDefault)"
    and "fst (resolve_default dflt) = Some dv \<Longrightarrow>
           \<exists>ty. dtype = Some ty \<and>
             n = (fst (value_store (value_blank dim units (Some dv) True ty) dv))
                   \<lparr>v_explicit := False, v_valid := options\<rparr>"
proof -
  obtain ty where ty: "dtype = Some ty"
    using assms by (cases dtype) (simp_all add: InputValue_init_def)
  obtain d opt where r: "resolve_default dflt = (d, opt)" by (cases "resolve_default dflt")
  have opt: "opt = (dflt \<noteq> NoDefault)"
    using r resolve_default_optional[of dflt] by simp
  note n = init_value_form[OF assms[unfolded ty] r]
  show "\<not> v_explicit n"
    using n by (cases d) (simp_all add: value_blank_def)
  show "v_optional n = (dflt \<noteq> NoDefault)"
    using n opt by (cases d) (simp_all add: value_blank_def)
  show "\<exists>ty. dtype = Some ty \<and>
             n = (fst (value_store (value_blank dim units (Some dv) True ty) dv))
                   \<lparr>v_explicit := False, v_valid := options\<rparr>"
    if "fst (resolve_default dflt) = Some dv"
  proof -
    have d: "d = Some dv" using that r by simp
    have o: "opt = True" using that r opt by (cases dflt) auto
    show ?thesis using n ty d o by simp
  qed
qed

lemma array_store_optional [simp]: "a_optional (fst (array_store u2i m v)) = a_optional m"
  by (simp add: array_store_def Let_def split_def split: option.split sum.split)

lemma init_array_form:
  assumes "InputArray_init u2i dim units dflt (Some ty) = Inr n"
    and r: "resolve_default dflt = (d, opt)"
  shows "\<exists>sh. InputValue_init None None (Literal shape0) (Some py_tuple) None = Inr sh \<and>
     n = (case d of None \<Rightarrow> array_blank dim units d opt ty sh
             | Some dv \<Rightarrow> (fst (array_store u2i (array_blank dim units d opt ty sh) dv))
                            \<lparr>a_explicit := False\<rparr>)"
proof (cases "InputValue_init None None (Literal shape0) (Some py_tuple) None")
  case (Inl e)
  then show ?thesis using assms by (simp add: InputArray_init_def)
next
  case (Inr sh)
  show ?thesis
  proof (cases d)
    case None
    then show ?thesis using assms Inr by (simp add: InputArray_init_def)
  next
    case (Some dv)
    obtain n1 res where st: "array_store u2i (array_blank dim units d opt ty sh) dv = (n1, res)"
      by (cases "array_store u2i (array_blank dim units d opt ty sh) dv")
    show ?thesis using assms Inr Some st
      by (cases res) (simp_all add: InputArray_init_def)
  qed
qed

lemma init_array_default:
  assumes "InputArray_init u2i dim units dflt dtype = Inr n"
  shows "\<not> a_explicit n" and "a_optional n = (dflt \<noteq> NoDefault)"
    and "fst (resolve_default dflt) = Some dv \<Longrightarrow>
           \<exists>ty sh. dtype = Some ty \<and>
             InputValue_init None None (Literal shape0) (Some py_tuple) None = Inr sh \<and>
             n = (fst (array_store u2i (array_blank dim units (Some dv) True ty sh) dv))
                   \<lparr>a_explicit := False\<rparr>"
proof -
  obtain ty where ty: "dtype = Some ty"
    using assms by (cases dtype) (simp_all add: InputArray_init_def)
  obtain d opt where r: "resolve_default dflt = (d, opt)" by (cases "resolve_default dflt")
  have opt: "opt = (dflt \<noteq> NoDefault)"
    using r resolve_default_optional[of dflt] by simp
  obtain sh where sh: "InputValue_init None None (Literal shape0) (Some py_tuple) None = Inr sh"
    and n: "n = (case d of None \<Rightarrow> array_blank dim units d opt ty sh
             | Some dv \<Rightarrow> (fst (array_store u2i (array_blank dim units d opt ty sh) dv))\<lparr>a_explicit := False\<rparr>)"
    using init_array_form[OF assms[unfolded ty] r] by blast
  show "\<not> a_explicit n"
    using n by (cases d) (simp_all add: array_blank_def)
  show "a_optional n = (dflt \<noteq> NoDefault)"
    using n opt by (cases d) (simp_all add: array_blank_def)
  show "\<exists>ty sh. dtype = Some ty \<and>
             InputValue_init None None (Literal shape0) (Some py_tuple) None = Inr sh \<and>
             n = (fst (array_store u2i (array_blank dim units (Some dv) True ty sh) dv))
                   \<lparr>a_explicit := False\<rparr>"
    if "fst (resolve_default dflt) = Some dv"
  proof -
    have d: "d = Some dv" using that r by simp
    have o: "opt = True" using that r opt by (cases dflt) auto
    show ?thesis using n ty sh d o by simp
  qed
qed

lemma init_input_default:
  assumes "Input_init dflt fs ats dyn = Inr n"
  shows "\<not> node_explicit n" and "node_optional n = (dflt \<noteq> NoDefault)"
    and "\<exists>fs' ats'. first_error fs = Inr fs' \<and> first_error ats = Inr ats' \<and>
           n = InputN (dflt \<noteq> NoDefault) False ats' fs' dyn []"
proof -
  obtain d opt where r: "resolve_default dflt = (d, opt)" by (cases "resolve_default dflt")
  have opt: "opt = (dflt \<noteq> NoDefault)"
    using r resolve_default_optional[of dflt] by simp
  obtain fs' where fs: "first_error fs = Inr fs'"
    using assms r by (cases "first_error fs") (simp_all add: Input_init_def bind_e_def)
  obtain ats' where ats: "first_error ats = Inr ats'"
    using assms r fs by (cases "first_error ats") (simp_all add: Input_init_def bind_e_def)
  have n: "n = InputN opt False ats' fs' dyn []"
    using assms r fs ats by (cases d) (simp_all add: Input_init_def Input_store_def bind_e_def)
  show "\<not> node_explicit n" using n by simp
  show "node_optional n = (dflt \<noteq> NoDefault)" using n opt by simp
  show "\<exists>fs' ats'. first_error fs = Inr fs' \<and> first_error ats = Inr ats' \<and>
           n = InputN (dflt \<noteq> NoDefault) False ats' fs' dyn []"
    using n opt fs ats by simp
qed

lemma store_mode_optional [simp]: "b_optional (fst (store_mode t n)) = b_optional n"
  by (simp add: store_mode_def split_def)

lemma store_common_optional [simp]: "b_optional (fst (store_common u2i fc fa n)) = b_optional n"
  by (simp add: store_common_def store_fixcom_def store_fixatoms_def and_then_def split_def
           split: option.split)

lemma motionbase_store_optional [simp]:
  "b_optional (fst (motionbase_store u2i n sc)) = b_optional n"
  by (cases sc)
     (simp_all add: and_then_def split_def slot_store_def split: option.split)

lemma motion_children_flags:
  "motion_children fmt rdi u2i opt = Inr n0 \<Longrightarrow> b_optional n0 = opt \<and> \<not> b_explicit n0"
  by (auto simp: motion_children_def bind_e_def split: sum.splits)

lemma init_motionbase_default:
  assumes "InputMotionBase_init fmt rdi u2i dflt = Inr n"
  shows "\<not> b_explicit n" and "b_optional n = (dflt \<noteq> NoDefault)"
    and "fst (resolve_default dflt) = Some sc \<Longrightarrow>
           \<exists>n0. motion_children fmt rdi u2i True = Inr n0 \<and>
             n = (fst (motionbase_store u2i n0 sc))\<lparr>b_explicit := False\<rparr>"
proof -
  obtain d opt where r: "resolve_default dflt = (d, opt)" by (cases "resolve_default dflt")
  have opt: "opt = (dflt \<noteq> NoDefault)"
    using r resolve_default_optional[of dflt] by simp
  obtain n0 where n0: "motion_children fmt rdi u2i opt = Inr n0"
    using assms r by (cases "motion_children fmt rdi u2i opt")
      (simp_all add: InputMotionBase_init_def bind_e_def)
  have n: "n = (case d of None \<Rightarrow> n0
             | Some sc \<Rightarrow> (fst (motionbase_store u2i n0 sc))\<lparr>b_explicit := False\<rparr>)"
  proof (cases d)
    case None
    then show ?thesis using assms r n0 by (simp add: InputMotionBase_init_def bind_e_def)
  next
    case (Some sc)
    obtain n1 res where st: "motionbase_store u2i n0 sc = (n1, res)"
      by (cases "motionbase_store u2i n0 sc")
    show ?thesis using assms r n0 Some st
      by (cases res) (simp_all add: InputMotionBase_init_def bind_e_def)
  qed
  note fl = motion_children_flags[OF n0]
  show "\<not> b_explicit n" using n fl by (cases d) simp_all
  show "b_optional n = (dflt \<noteq> NoDefault)" using n fl opt by (cases d) simp_all
  show "\<exists>n0. motion_children fmt rdi u2i True = Inr n0 \<and>
             n = (fst (motionbase_store u2i n0 sc))\<lparr>b_explicit := False\<rparr>"
    if "fst (resolve_default dflt) = Some sc"
  proof -
    have d: "d = Some sc" using that r by simp
    have o: "opt = True" using that r opt by (cases dflt) auto
    show ?thesis using n n0 d o by simp
  qed
qed

lemma fixcom_node:
  "InputValue_init None None (Literal (PBool True)) (Some py_bool) None =
     Inr ((value_blank None None (Some (PBool True)) True py_bool)\<lparr>v_value := Some (PBool True)\<rparr>)"
  by (simp add: InputValue_init_def value_store_eq value_set_options_def value_blank_def)

lemma shape_node:
  "InputValue_init None None (Literal shape0) (Some py_tuple) None =
     Inr ((value_blank None None (Some shape0) True py_tuple)\<lparr>v_value := Some shape0\<rparr>)"
  by (simp add: InputValue_init_def value_store_eq value_set_options_def value_blank_def shape0_def)

lemma mode_node:
  "InputAttribute_init NoDefault (Some ty) (Some opts) =
     Inr ((value_blank None None None False ty)
            \<lparr>v_class := ''InputAttribute'', v_valid := Some opts\<rparr>)"
  by (simp add: InputAttribute_init_def InputValue_init_def value_set_options_def value_blank_def)

lemma py_eq_shape0 [simp]: "py_eq shape0 shape0"
  by (simp add: shape0_def)

lemma fixatoms_node:
  "InputArray_init u2i None None (Literal \<lparr> nd_shape = [0], nd_data = [] \<rparr>) (Some ty) =
     Inr ((array_blank None None (Some \<lparr> nd_shape = [0], nd_data = [] \<rparr>) True ty
             ((value_blank None None (Some shape0) True py_tuple)
                \<lparr>v_explicit := True, v_value := Some shape0\<rparr>))
            \<lparr>a_value := Some \<lparr> nd_shape = [0], nd_data = [] \<rparr>\<rparr>)"
  apply (simp add: InputArray_init_def shape_node)
  apply (simp add: array_store_def value_store_eq shape_tuple_def
        np_flat_def value_fetch_def value_check_def value_blank_def array_blank_def shape0_def)
  done

lemma motion_children_ok:
  "motion_children fmt rdi u2i opt =
     Inr \<lparr> b_optional = opt, b_explicit = False,
           b_mode = (value_blank None None None False (py_str fmt))
                      \<lparr>v_class := ''InputAttribute'', v_valid := Some mode_options\<rparr>,
           b_fixcom = (value_blank None None (Some (PBool True)) True py_bool)
                        \<lparr>v_value := Some (PBool True)\<rparr>,
           b_fixatoms = (array_blank None None (Some \<lparr> nd_shape = [0], nd_data = [] \<rparr>) True
                           (py_int rdi)
                           ((value_blank None None (Some shape0) True py_tuple)
                              \<lparr>v_explicit := True, v_value := Some shape0\<rparr>))
                          \<lparr>a_value := Some \<lparr> nd_shape = [0], nd_data = [] \<rparr>\<rparr>,
           b_optimizer = slot_init [], b_neb_optimizer = slot_init [],
           b_dynamics = slot_init [], b_file = slot_init [(''mode'', PStr ''xyz'')],
           b_vibrations = slot_init [], b_alchemy = slot_init [] \<rparr>"
  by (simp add: motion_children_def bind_e_def fixcom_node fixatoms_node mode_node)

text \<open>
  C6. A node built with a default (a literal, or a descriptor whose factory yields a
  value) is the blank node after \<open>store\<close> of that default, with \<open>_explicit\<close> reset to
  false; it is optional and not explicit. A node built without a default is neither
  explicit nor optional. This holds for the scalar leaf, the array leaf, the base
  composite (whose \<open>store\<close> only sets the flag) and the variant dispatcher.
\<close>

theorem default_applied_not_explicit:
  "(InputValue_init dim units vd dtype options = Inr nv \<longrightarrow>
      \<not> v_explicit nv \<and> v_optional nv = (vd \<noteq> NoDefault) \<and>
      (\<forall>dv. fst (resolve_default vd) = Some dv \<longrightarrow>
         (\<exists>ty. dtype = Some ty \<and>
            nv = (fst (value_store (value_blank dim units (Some dv) True ty) dv))
                   \<lparr>v_explicit := False, v_valid := options\<rparr>))) \<and>
   (InputArray_init u2i adim aunits ad adtype = Inr na \<longrightarrow>
      \<not> a_explicit na \<and> a_optional na = (ad \<noteq> NoDefault) \<and>
      (\<forall>dv. fst (resolve_default ad) = Some dv \<longrightarrow>
         (\<exists>ty sh. adtype = Some ty \<and>
            InputValue_init None None (Literal shape0) (Some py_tuple) None = Inr sh \<and>
            na = (fst (array_store u2i (array_blank adim aunits (Some dv) True ty sh) dv))
                   \<lparr>a_explicit := False\<rparr>))) \<and>
   (Input_init cd fs ats dyn = Inr nc \<longrightarrow>
      \<not> node_explicit nc \<and> node_optional nc = (cd \<noteq> NoDefault) \<and>
      (\<exists>fs' ats'. first_error fs = Inr fs' \<and> first_error ats = Inr ats' \<and>
         nc = InputN (cd \<noteq> NoDefault) False ats' fs' dyn [])) \<and>
   (InputMotionBase_init fmt rdi u2i md = Inr nm \<longrightarrow>
      \<not> b_explicit nm \<and> b_optional nm = (md \<noteq> NoDefault) \<and>
      (\<forall>sc. fst (resolve_default md) = Some sc \<longrightarrow>
         (\<exists>n0. motion_children fmt rdi u2i True = Inr n0 \<and>
            nm = (fst (motionbase_store u2i n0 sc))\<lparr>b_explicit := False\<rparr>)))"
proof (intro conjI)
  show "InputValue_init dim units vd dtype options = Inr nv \<longrightarrow>
      \<not> v_explicit nv \<and> v_optional nv = (vd \<noteq> NoDefault) \<and>
      (\<forall>dv. fst (resolve_default vd) = Some dv \<longrightarrow>
         (\<exists>ty. dtype = Some ty \<and>
            nv = (fst (value_store (value_blank dim units (Some dv) True ty) dv))
                   \<lparr>v_explicit := False, v_valid := options\<rparr>))"
    using init_value_default[of dim units vd dtype options nv] by blast
  show "InputArray_init u2i adim aunits ad adtype = Inr na \<longrightarrow>
      \<not> a_explicit na \<and> a_optional na = (ad \<noteq> NoDefault) \<and>
      (\<forall>dv. fst (resolve_default ad) = Some dv \<longrightarrow>
         (\<exists>ty sh. adtype = Some ty \<and>
            InputValue_init None None (Literal shape0) (Some py_tuple) None = Inr sh \<and>
            na = (fst (array_store u2i (array_blank adim aunits (Some dv) True ty sh) dv))
                   \<lparr>a_explicit := False\<rparr>))"
    using init_array_default[of u2i adim aunits ad adtype na] by blast
  show "Input_init cd fs ats dyn = Inr nc \<longrightarrow>
      \<not> node_explicit nc \<and> node_optional nc = (cd \<noteq> NoDefault) \<and>
      (\<exists>fs' ats'. first_error fs = Inr fs' \<and> first_error ats = Inr ats' \<and>
         nc = InputN (cd \<noteq> NoDefault) False ats' fs' dyn [])"
    using init_input_default[of cd fs ats dyn nc] by blast
  show "InputMotionBase_init fmt rdi u2i md = Inr nm \<longrightarrow>
      \<not> b_explicit nm \<and> b_optional nm = (md \<noteq> NoDefault) \<and>
      (\<forall>sc. fst (resolve_default md) = Some sc \<longrightarrow>
         (\<exists>n0. motion_children fmt rdi u2i True = Inr n0 \<and>
            nm = (fst (motionbase_store u2i n0 sc))\<lparr>b_explicit := False\<rparr>))"
    using init_motionbase_default[of fmt rdi u2i md nm] by blast
qed

theorem default_applied_not_explicit_witness:
  "\<exists>nv na nc nm.
     InputValue_init None None (Literal (PBool True)) (Some py_bool) None = Inr nv \<and>
     \<not> v_explicit nv \<and> v_optional nv \<and> v_value nv = Some (PBool True) \<and>
     InputArray_init (\<lambda>d u v. Inr v) None None (Literal \<lparr> nd_shape = [0], nd_data = [] \<rparr>)
        (Some py_bool) = Inr na \<and>
     \<not> a_explicit na \<and> a_optional na \<and>
     Input_init (Literal ()) [] [] [] = Inr nc \<and>
     \<not> node_explicit nc \<and> node_optional nc \<and>
     InputMotionBase_init (\<lambda>v. []) (\<lambda>s. None) (\<lambda>d u v. Inr v) (Deferred (\<lambda>u. Some Motion)) = Inr nm \<and>
     \<not> b_explicit nm \<and> b_optional nm \<and> v_value (b_mode nm) = Some (PStr ''dummy'')"
proof -
  let ?u = "\<lambda>(d::string) (u::string) (v::pyval). (Inr v :: error + pyval)"
  obtain nv where nv: "InputValue_init None None (Literal (PBool True)) (Some py_bool) None = Inr nv"
    and nvv: "v_value nv = Some (PBool True)"
    using fixcom_node by simp
  obtain na where na: "InputArray_init ?u None None (Literal \<lparr> nd_shape = [0], nd_data = [] \<rparr>)
        (Some py_bool) = Inr na"
    using fixatoms_node by simp
  obtain nc where nc: "Input_init (Literal ()) [] [] [] = Inr nc"
    by (simp add: Input_init_def Input_store_def bind_e_def)
  obtain n0 where n0: "motion_children (\<lambda>v. []) (\<lambda>s. None) ?u True = Inr n0"
    and m0: "v_type (b_mode n0) = py_str (\<lambda>v. [])"
    using motion_children_ok[of "\<lambda>v. []" "\<lambda>s. None" ?u True] by (simp add: value_blank_def)
  have st: "motionbase_store ?u n0 Motion =
       (n0\<lparr>b_explicit := True, b_mode := (b_mode n0)\<lparr>v_explicit := True, v_value := Some (PStr ''dummy'')\<rparr>\<rparr>, None)"
    by (simp add: store_mode_def value_store_eq m0)
  have nm: "InputMotionBase_init (\<lambda>v. []) (\<lambda>s. None) ?u (Deferred (\<lambda>u. Some Motion)) =
      Inr ((fst (motionbase_store ?u n0 Motion))\<lparr>b_explicit := False\<rparr>)"
    unfolding InputMotionBase_init_def
    by (simp add: n0 bind_e_def store_mode_def value_store_eq m0)
  note t = default_applied_not_explicit[of None None "Literal (PBool True)" "Some py_bool" None nv
      ?u None None "Literal \<lparr> nd_shape = [0], nd_data = [] \<rparr>" "Some py_bool" na
      "Literal ()" "[]" "[]" "[]" nc "\<lambda>v. []" "\<lambda>s. None"
      "Deferred (\<lambda>u. Some Motion)" "(fst (motionbase_store ?u n0 Motion))\<lparr>b_explicit := False\<rparr>"]
  from t nv have "\<not> v_explicit nv \<and> v_optional nv = (Literal (PBool True) \<noteq> NoDefault)"
    by blast
  then have a: "\<not> v_explicit nv \<and> v_optional nv" by simp
  from t na have "\<not> a_explicit na \<and>
      a_optional na = (Literal \<lparr> nd_shape = [0], nd_data = [] \<rparr> \<noteq> NoDefault)"
    by blast
  then have b: "\<not> a_explicit na \<and> a_optional na" by simp
  from t nc have "\<not> node_explicit nc \<and> node_optional nc = (Literal () \<noteq> NoDefault)"
    by blast
  then have c: "\<not> node_explicit nc \<and> node_optional nc" by simp
  from t nm have "\<not> b_explicit ((fst (motionbase_store ?u n0 Motion))\<lparr>b_explicit := False\<rparr>) \<and>
      b_optional ((fst (motionbase_store ?u n0 Motion))\<lparr>b_explicit := False\<rparr>) =
        (Deferred (\<lambda>u. Some Motion) \<noteq> NoDefault)"
    by blast
  then have d: "\<not> b_explicit ((fst (motionbase_store ?u n0 Motion))\<lparr>b_explicit := False\<rparr>) \<and>
      b_optional ((fst (motionbase_store ?u n0 Motion))\<lparr>b_explicit := False\<rparr>)"
    by (simp del: motionbase_store.simps)
  have e: "v_value (b_mode ((fst (motionbase_store ?u n0 Motion))\<lparr>b_explicit := False\<rparr>)) = Some (PStr ''dummy'')"
    by (simp add: store_mode_def value_store_eq m0)
  show ?thesis using nv nvv na nc nm a b c d e by blast
qed

text \<open>
  C10. When the coercion of \<open>store\<close> raises, the scalar leaf is left with \<open>_explicit\<close>
  true and nothing else changed, so \<open>check\<close> does not raise the error of an
  uninitialised value; with no option list it raises nothing.
\<close>

theorem failed_store_marks_explicit:
  "v_type n v = Inl e \<Longrightarrow>
     value_store n v = (n\<lparr>v_explicit := True\<rparr>, Some e) \<and>
     value_check (fst (value_store n v)) \<noteq>
       Inl (ValueError (Text (''Uninitialized Input value of type '' @ v_class n))) \<and>
     (v_valid n = None \<longrightarrow> value_check (fst (value_store n v)) = Inr ())"
  by (auto simp: value_store_eq value_check_def split: option.splits)

theorem failed_store_marks_explicit_witness:
  "InputValue_init None None NoDefault (Some py_tuple) None =
     Inr (value_blank None None None False py_tuple) \<and>
   value_check (value_blank None None None False py_tuple) =
     Inl (ValueError (Text ''Uninitialized Input value of type InputValue'')) \<and>
   value_store (value_blank None None None False py_tuple) (PInt 5) =
     ((value_blank None None None False py_tuple)\<lparr>v_explicit := True\<rparr>,
      Some (TypeError (Text ''object is not iterable''))) \<and>
   value_check (fst (value_store (value_blank None None None False py_tuple) (PInt 5))) = Inr ()"
proof -
  have h: "v_type (value_blank None None None False py_tuple) (PInt 5) =
        Inl (TypeError (Text ''object is not iterable''))"
    by (simp add: value_blank_def)
  have v: "v_valid (value_blank None None None False py_tuple) = None"
    by (simp add: value_blank_def)
  have i: "InputValue_init None None NoDefault (Some py_tuple) None =
     Inr (value_blank None None None False py_tuple)"
    by (simp add: InputValue_init_def value_set_options_def value_blank_def)
  have c: "value_check (value_blank None None None False py_tuple) =
     Inl (ValueError (Text ''Uninitialized Input value of type InputValue''))"
    by (simp add: value_check_def value_blank_def)
  from failed_store_marks_explicit[OF h] v i c show ?thesis by blast
qed

section \<open>\<open>store\<close> of the variant dispatcher\<close>

lemma and_then_None:
  "and_then r f = (s', None) \<Longrightarrow> \<exists>s. r = (s, None) \<and> f s = (s', None)"
  by (cases r) (auto simp: and_then_def split: option.splits)

lemma store_mode_frame:
  "b_fixcom (fst (store_mode t n)) = b_fixcom n"
  "b_fixatoms (fst (store_mode t n)) = b_fixatoms n"
  "b_explicit (fst (store_mode t n)) = b_explicit n"
  "b_file (fst (store_mode t n)) = b_file n"
  by (simp_all add: store_mode_def split_def)

lemma store_common_None:
  assumes "store_common u2i fc fa n = (n', None)"
  shows "b_fixcom n' = fst (value_store (b_fixcom n) fc)"
    and "b_fixatoms n' = fst (array_store u2i (b_fixatoms n) fa)"
    and "snd (value_store (b_fixcom n) fc) = None"
    and "snd (array_store u2i (b_fixatoms n) fa) = None"
proof -
  obtain s where s: "store_fixcom fc n = (s, None)" and s': "store_fixatoms u2i fa s = (n', None)"
    using and_then_None[OF assms[unfolded store_common_def]] by blast
  have 1: "s = n\<lparr>b_fixcom := fst (value_store (b_fixcom n) fc)\<rparr>"
    and 2: "snd (value_store (b_fixcom n) fc) = None"
    using s by (auto simp: store_fixcom_def split_def)
  have 3: "n' = s\<lparr>b_fixatoms := fst (array_store u2i (b_fixatoms s) fa)\<rparr>"
    and 4: "snd (array_store u2i (b_fixatoms s) fa) = None"
    using s' by (auto simp: store_fixatoms_def split_def)
  show "b_fixcom n' = fst (value_store (b_fixcom n) fc)" using 1 3 by simp
  show "b_fixatoms n' = fst (array_store u2i (b_fixatoms n) fa)" using 1 3 by simp
  show "snd (value_store (b_fixcom n) fc) = None" by (rule 2)
  show "snd (array_store u2i (b_fixatoms n) fa) = None" using 1 4 by simp
qed

lemma slot_step_frame:
  "(case slot_store sl cfg of (sl', r) \<Rightarrow> (upd sl', r)) = (upd (sl\<lparr>s_explicit := True, s_config := cfg\<rparr>), None)"
  by (simp add: slot_store_def)

lemma value_store_explicit [simp]: "v_explicit (fst (value_store n v))"
  by (simp add: value_store_eq split: sum.split)

lemma array_store_explicit [simp]: "a_explicit (fst (array_store u2i m v))"
  by (simp add: array_store_def Let_def split_def split: option.split sum.split)

lemma store_kind_common:
  assumes "and_then (and_then (store_mode t (n\<lparr>b_explicit := True\<rparr>)) g) (store_common u2i fc fa) = (n', None)"
    and g: "\<And>s. b_fixcom (fst (g s)) = b_fixcom s \<and> b_fixatoms (fst (g s)) = b_fixatoms s"
  shows "b_fixcom n' = fst (value_store (b_fixcom n) fc) \<and>
         b_fixatoms n' = fst (array_store u2i (b_fixatoms n) fa)"
proof -
  obtain s where s: "and_then (store_mode t (n\<lparr>b_explicit := True\<rparr>)) g = (s, None)"
    and c: "store_common u2i fc fa s = (n', None)"
    using and_then_None[OF assms(1)] by blast
  obtain s0 where s0: "store_mode t (n\<lparr>b_explicit := True\<rparr>) = (s0, None)" and gs: "g s0 = (s, None)"
    using and_then_None[OF s] by blast
  have "b_fixcom s0 = b_fixcom n" "b_fixatoms s0 = b_fixatoms n"
    using store_mode_frame(1,2)[of t "n\<lparr>b_explicit := True\<rparr>"] s0 by simp_all
  moreover have "b_fixcom s = b_fixcom s0" "b_fixatoms s = b_fixatoms s0"
    using g[of s0] gs by simp_all
  ultimately show ?thesis using store_common_None(1,2)[OF c] by simp
qed

lemma store_common_kinds:
  assumes "sc \<in> {GeopMotion fc fa opts, NEBMover fc fa opts, Dynamics fc fa opts,
                 DynMatrixMover fc fa opts, AlchemyMC fc fa opts}"
    and st: "motionbase_store u2i n sc = (n', None)"
  shows "b_fixcom n' = fst (value_store (b_fixcom n) fc) \<and>
         b_fixatoms n' = fst (array_store u2i (b_fixatoms n) fa)"
proof -
  consider "sc = GeopMotion fc fa opts" | "sc = NEBMover fc fa opts" | "sc = Dynamics fc fa opts"
    | "sc = DynMatrixMover fc fa opts" | "sc = AlchemyMC fc fa opts"
    using assms(1) by blast
  then show ?thesis
  proof cases
    case 1
    show ?thesis
      by (rule store_kind_common[OF st[unfolded 1 motionbase_store.simps]])
         (simp add: slot_store_def)
  next
    case 2
    show ?thesis
      by (rule store_kind_common[OF st[unfolded 2 motionbase_store.simps]])
         (simp add: slot_store_def)
  next
    case 3
    show ?thesis
      by (rule store_kind_common[OF st[unfolded 3 motionbase_store.simps]])
         (simp add: slot_store_def)
  next
    case 4
    show ?thesis
      by (rule store_kind_common[OF st[unfolded 4 motionbase_store.simps]])
         (simp add: slot_store_def)
  next
    case 5
    show ?thesis
      by (rule store_kind_common[OF st[unfolded 5 motionbase_store.simps]])
         (simp add: slot_store_def)
  qed
qed

lemma store_replay_frame:
  "b_fixcom (fst (motionbase_store u2i n (Replay fc fa intraj))) = b_fixcom n \<and>
   b_fixatoms (fst (motionbase_store u2i n (Replay fc fa intraj))) = b_fixatoms n"
  by (simp add: and_then_def split_def store_mode_frame slot_store_def split: option.split)

lemma store_replay_file:
  assumes "motionbase_store u2i n (Replay fc fa intraj) = (n', None)"
  shows "b_file n' = (b_file n)\<lparr>s_explicit := True, s_config := intraj\<rparr>"
proof -
  obtain s where s: "store_mode ''replay'' (n\<lparr>b_explicit := True\<rparr>) = (s, None)"
    and f: "(case slot_store (b_file s) intraj of (sl, r) \<Rightarrow> (s\<lparr>b_file := sl\<rparr>, r)) = (n', None)"
    using and_then_None[OF assms[unfolded motionbase_store.simps]] by blast
  have "b_file s = b_file n"
    using store_mode_frame(4)[of "''replay''" "n\<lparr>b_explicit := True\<rparr>"] s by simp
  then show ?thesis using f by (auto simp: slot_store_def)
qed

lemma InputMotionBase_fresh:
  "\<exists>n0. InputMotionBase_init fmt rdi u2i NoDefault = Inr n0 \<and>
        motion_children fmt rdi u2i False = Inr n0"
  by (simp add: InputMotionBase_init_def bind_e_def motion_children_ok)

lemma InputMotion_fresh:
  "\<exists>n0. motion_children fmt rdi u2i False = Inr n0 \<and>
     InputMotion_init fmt rdi u2i NoDefault = Inr (mbase.extend n0 \<lparr> m_extra = [] \<rparr>)"
  by (simp add: InputMotion_init_def bind_e_def motion_children_ok)

lemma children_types:
  assumes "motion_children fmt rdi u2i opt = Inr n0"
  shows "v_type (b_mode n0) = py_str fmt" "v_type (b_fixcom n0) = py_bool"
    "a_type (b_fixatoms n0) = py_int rdi" "b_explicit n0 = False" "b_optional n0 = opt"
    "v_explicit (b_fixcom n0) = False" "a_explicit (b_fixatoms n0) = False"
    "v_explicit (b_mode n0) = False"
    "a_shape (b_fixatoms n0) = (value_blank None None (Some shape0) True py_tuple)
                              \<lparr>v_explicit := True, v_value := Some shape0\<rparr>"
    "a_optional (b_fixatoms n0)" "v_optional (b_fixcom n0)"
    "v_value (b_fixcom n0) = Some (PBool True)" "v_valid (b_fixcom n0) = None"
    "v_dimension (b_fixcom n0) = ''undefined''" "a_dimension (b_fixatoms n0) = ''undefined''"
    "a_value (b_fixatoms n0) = Some \<lparr> nd_shape = [0], nd_data = [] \<rparr>"
    "v_valid (b_mode n0) = Some mode_options" "v_dimension (b_mode n0) = ''undefined''"
    "b_file n0 = slot_init [(''mode'', PStr ''xyz'')]"
    "b_optimizer n0 = slot_init []" "b_neb_optimizer n0 = slot_init []"
    "b_dynamics n0 = slot_init []" "b_vibrations n0 = slot_init []" "b_alchemy n0 = slot_init []"
  using assms unfolding motion_children_ok by (auto simp: value_blank_def array_blank_def)

lemma store_mode_str:
  "v_type (b_mode n) = py_str fmt \<Longrightarrow>
   store_mode t n = (n\<lparr>b_mode := (b_mode n)\<lparr>v_explicit := True, v_value := Some (PStr t)\<rparr>\<rparr>, None)"
  by (simp add: store_mode_def value_store_eq)

lemma InputMotion_fresh_fields:
  assumes "InputMotion_init fmt rdi u2i NoDefault = Inr n"
  shows "v_type (b_mode n) = py_str fmt" "\<not> b_explicit n" "m_extra n = []"
proof -
  obtain n0 where c: "motion_children fmt rdi u2i False = Inr n0"
    and i: "InputMotion_init fmt rdi u2i NoDefault = Inr (mbase.extend n0 \<lparr> m_extra = [] \<rparr>)"
    using InputMotion_fresh by blast
  have n: "n = mbase.extend n0 \<lparr> m_extra = [] \<rparr>" using assms i by simp
  note t = children_types[OF c]
  show "v_type (b_mode n) = py_str fmt" using t(1) n by (simp add: mbase.defs)
  show "\<not> b_explicit n" using t(4) n by (simp add: mbase.defs)
  show "m_extra n = []" using n by (simp add: mbase.defs)
qed

lemma store_list_explicit:
  "b_explicit (fst (store_list fmt rdi u2i n ml)) = b_explicit n"
proof (induction ml arbitrary: n)
  case Nil
  then show ?case by simp
next
  case (Cons m ml)
  show ?case
  proof (cases "InputMotionBase_init fmt rdi u2i NoDefault")
    case (Inl e)
    then show ?thesis by simp
  next
    case (Inr im)
    obtain im' res where st: "motionbase_store u2i im m = (im', res)"
      by (cases "motionbase_store u2i im m")
    show ?thesis
      using Inr st Cons.IH[of "n\<lparr>m_extra := m_extra n @ [(''motion'', im')]\<rparr>"]
      by (cases res) (simp_all del: motionbase_store.simps)
  qed
qed

lemma multi_store_explicit_unchanged:
  "b_explicit (fst (minput_store fmt rdi u2i n (MultiMotion ml))) = b_explicit n"
proof -
  obtain s res where sm: "store_mode ''multi'' n = (s, res)" by (cases "store_mode ''multi'' n")
  have e: "b_explicit s = b_explicit n"
    using store_mode_frame(3)[of "''multi''" n] sm by simp
  show ?thesis
    using sm e store_list_explicit[of fmt rdi u2i s ml]
    by (cases res) (simp_all add: and_then_def)
qed

text \<open>
  C2 (the composite branch). \<^verbatim>\<open>InputMotion.store\<close> of a \<open>MultiMotion\<close> sets the mode
  and appends the children, and never touches \<open>_explicit\<close>: the flag is afterwards
  what it was before. On a fresh \<^verbatim>\<open>InputMotion()\<close> it is still false after
  \<open>store\<close> has returned, while \<open>store\<close> of any other kind goes through
  \<^verbatim>\<open>Input.store\<close> and sets it.
\<close>

theorem multi_store_leaves_explicit_unset:
  "(\<forall>m ml. b_explicit (fst (minput_store fmt rdi u2i m (MultiMotion ml))) = b_explicit m) \<and>
   (\<exists>n n'. InputMotion_init fmt rdi u2i NoDefault = Inr n \<and> \<not> b_explicit n \<and>
     minput_store fmt rdi u2i n (MultiMotion [Motion]) = (n', None) \<and>
     v_value (b_mode n') = Some (PStr ''multi'') \<and> length (m_extra n') = 1 \<and>
     \<not> b_explicit n' \<and>
     b_explicit (fst (minput_store fmt rdi u2i n Motion)))"
proof (intro conjI allI)
  show "b_explicit (fst (minput_store fmt rdi u2i m (MultiMotion ml))) = b_explicit m" for m ml
    by (rule multi_store_explicit_unchanged)
next
  obtain n where i: "InputMotion_init fmt rdi u2i NoDefault = Inr n"
    using InputMotion_fresh by blast
  note f = InputMotion_fresh_fields[OF i]
  obtain n0 where b: "InputMotionBase_init fmt rdi u2i NoDefault = Inr n0"
    and c: "motion_children fmt rdi u2i False = Inr n0"
    using InputMotionBase_fresh by blast
  note t = children_types[OF c]
  have ch: "motionbase_store u2i n0 Motion =
     (n0\<lparr>b_explicit := True, b_mode := (b_mode n0)\<lparr>v_explicit := True, v_value := Some (PStr ''dummy'')\<rparr>\<rparr>, None)"
    by (simp add: store_mode_str[where fmt=fmt] t(1))
  have st: "minput_store fmt rdi u2i n (MultiMotion [Motion]) =
      (n\<lparr>b_mode := (b_mode n)\<lparr>v_explicit := True, v_value := Some (PStr ''multi'')\<rparr>,
          m_extra := [(''motion'', n0\<lparr>b_explicit := True, b_mode := (b_mode n0)\<lparr>v_explicit := True, v_value := Some (PStr ''dummy'')\<rparr>\<rparr>)]\<rparr>, None)"
    by (simp add: store_mode_str[OF f(1)] and_then_def b ch f(3) del: motionbase_store.simps)
  have sib: "b_explicit (fst (minput_store fmt rdi u2i n Motion))"
    by (simp add: store_mode_frame)
  show "\<exists>n n'. InputMotion_init fmt rdi u2i NoDefault = Inr n \<and> \<not> b_explicit n \<and>
     minput_store fmt rdi u2i n (MultiMotion [Motion]) = (n', None) \<and>
     v_value (b_mode n') = Some (PStr ''multi'') \<and> length (m_extra n') = 1 \<and>
     \<not> b_explicit n' \<and>
     b_explicit (fst (minput_store fmt rdi u2i n Motion))"
    apply (rule exI[of _ n])
    apply (rule exI[of _ "fst (minput_store fmt rdi u2i n (MultiMotion [Motion]))"])
    using i f(2) sib unfolding st by simp
qed

lemma py_eq_shape_tuple: "py_eq (shape_tuple a) shape0 = (nd_shape a = [0])"
proof (cases "nd_shape a")
  case Nil
  then show ?thesis by (simp add: shape_tuple_def shape0_def)
next
  case (Cons d ds)
  then show ?thesis by (cases ds) (simp_all add: shape_tuple_def shape0_def)
qed

lemma array_store_ok:
  assumes "plain_shape (a_shape n)"
    and "convert_all (a_type n) (nd_data a) = Inr ys"
  shows "array_store u2i n a =
     (n\<lparr>a_explicit := True,
        a_value := Some \<lparr> nd_shape = [length ys], nd_data = ys \<rparr>,
        a_shape := (a_shape n)\<lparr>v_explicit := True,
                      v_value := Some (if nd_shape a = [0] then PTuple [PInt (int (length ys))]
                                       else shape_tuple a)\<rparr>\<rparr>, None)"
proof -
  have ty: "v_type (a_shape n) = py_tuple"
    using assms(1) by (simp add: plain_shape_def)
  have fl: "np_flat (a_type n) a = Inr \<lparr> nd_shape = [length ys], nd_data = ys \<rparr>"
    by (simp add: np_flat_def assms(2))
  have fe: "value_fetch u2i ((a_shape n)\<lparr>v_explicit := True, v_value := Some w\<rparr>) = Inr w" for w
    using assms(1) by (simp add: value_fetch_def value_check_def plain_shape_def)
  have st: "py_tuple (shape_tuple a) = Inr (shape_tuple a)"
    by (simp add: shape_tuple_def)
  show ?thesis
    by (simp add: array_store_def Let_def value_store_eq ty st fl fe py_eq_shape_tuple)
qed

lemma convert_all_ints:
  "convert_all (py_int rdi) (map PInt is) = Inr (map PInt is)"
  by (induction "is") simp_all

lemma fresh_store_common_ok:
  assumes c: "motion_children fmt rdi u2i opt = Inr n0"
    and n: "b_fixcom n = b_fixcom n0" "b_fixatoms n = b_fixatoms n0"
  shows "snd (store_common u2i (PBool b) \<lparr> nd_shape = sh, nd_data = map PInt is \<rparr> n) = None"
proof -
  note t = children_types[OF c]
  have p: "plain_shape (a_shape (b_fixatoms n))"
    using t(9) n by (simp add: plain_shape_def value_blank_def)
  have cv: "convert_all (a_type (b_fixatoms n)) (nd_data \<lparr> nd_shape = sh, nd_data = map PInt is \<rparr>)
      = Inr (map PInt is)"
    using t(3) n by (simp add: convert_all_ints)
  show ?thesis
    by (simp add: store_common_def store_fixcom_def store_fixatoms_def and_then_def
          value_store_eq t(2) n(1) array_store_ok[OF p cv])
qed

text \<open>
  C7. \<open>store\<close> of a \<open>GeopMotion\<close>, \<open>NEBMover\<close>, \<open>Dynamics\<close>, \<open>DynMatrixMover\<close> or
  \<open>AlchemyMC\<close> that returns has stored \<open>fixcom\<close> and \<open>fixatoms\<close> of the object into
  the two common nodes, which are then explicit. \<open>store\<close> of a \<open>Replay\<close> leaves the
  two common nodes as they were, and when it returns the file slot holds the file
  reference of the object and is explicit.
\<close>

theorem store_common_attributes_except_replay:
  "(sc \<in> {GeopMotion fc fa opts, NEBMover fc fa opts, Dynamics fc fa opts,
           DynMatrixMover fc fa opts, AlchemyMC fc fa opts} \<and>
    motionbase_store u2i n sc = (n', None) \<longrightarrow>
      b_fixcom n' = fst (value_store (b_fixcom n) fc) \<and>
      b_fixatoms n' = fst (array_store u2i (b_fixatoms n) fa) \<and>
      v_explicit (b_fixcom n') \<and> a_explicit (b_fixatoms n')) \<and>
   b_fixcom (fst (motionbase_store u2i n (Replay fc fa intraj))) = b_fixcom n \<and>
   b_fixatoms (fst (motionbase_store u2i n (Replay fc fa intraj))) = b_fixatoms n \<and>
   (motionbase_store u2i n (Replay fc fa intraj) = (n'', None) \<longrightarrow>
      b_file n'' = (b_file n)\<lparr>s_explicit := True, s_config := intraj\<rparr>)"
proof (intro conjI impI)
  assume a: "sc \<in> {GeopMotion fc fa opts, NEBMover fc fa opts, Dynamics fc fa opts,
           DynMatrixMover fc fa opts, AlchemyMC fc fa opts} \<and>
    motionbase_store u2i n sc = (n', None)"
  then have k: "b_fixcom n' = fst (value_store (b_fixcom n) fc) \<and>
      b_fixatoms n' = fst (array_store u2i (b_fixatoms n) fa)"
    using store_common_kinds by blast
  show "b_fixcom n' = fst (value_store (b_fixcom n) fc)" using k by simp
  show "b_fixatoms n' = fst (array_store u2i (b_fixatoms n) fa)" using k by simp
  show "v_explicit (b_fixcom n')" using k by simp
  show "a_explicit (b_fixatoms n')" using k by simp
next
  show "b_fixcom (fst (motionbase_store u2i n (Replay fc fa intraj))) = b_fixcom n"
    using store_replay_frame by blast
  show "b_fixatoms (fst (motionbase_store u2i n (Replay fc fa intraj))) = b_fixatoms n"
    using store_replay_frame by blast
next
  assume "motionbase_store u2i n (Replay fc fa intraj) = (n'', None)"
  then show "b_file n'' = (b_file n)\<lparr>s_explicit := True, s_config := intraj\<rparr>"
    by (rule store_replay_file)
qed

lemma fresh_store_geop_ok:
  assumes c: "motion_children fmt rdi u2i opt = Inr n0"
  shows "snd (motionbase_store u2i n0 (GeopMotion (PBool b) \<lparr> nd_shape = sh, nd_data = map PInt is \<rparr> kw)) = None"
proof -
  note t = children_types[OF c]
  let ?s = "n0\<lparr>b_explicit := True,
       b_mode := (b_mode n0)\<lparr>v_explicit := True, v_value := Some (PStr ''minimize'')\<rparr>,
       b_optimizer := (b_optimizer n0)\<lparr>s_explicit := True, s_config := kw\<rparr>\<rparr>"
  have m: "v_type (b_mode (n0\<lparr>b_explicit := True\<rparr>)) = py_str fmt" using t(1) by simp
  have "motionbase_store u2i n0 (GeopMotion (PBool b) \<lparr> nd_shape = sh, nd_data = map PInt is \<rparr> kw)
      = store_common u2i (PBool b) \<lparr> nd_shape = sh, nd_data = map PInt is \<rparr> ?s"
    by (simp add: store_mode_str[OF m] and_then_def slot_store_def)
  then show ?thesis
    using fresh_store_common_ok[OF c, of ?s] by simp
qed

theorem store_common_attributes_except_replay_witness:
  "\<exists>n n' n''.
     InputMotionBase_init (\<lambda>v. []) (\<lambda>s. None) (\<lambda>d u v. Inr v) NoDefault = Inr n \<and>
     \<not> v_explicit (b_fixcom n) \<and> \<not> a_explicit (b_fixatoms n) \<and>
     motionbase_store (\<lambda>d u v. Inr v) n
        (GeopMotion (PBool False) \<lparr> nd_shape = [2], nd_data = [PInt 3, PInt 7] \<rparr> []) = (n', None) \<and>
     v_explicit (b_fixcom n') \<and> a_explicit (b_fixatoms n') \<and>
     v_value (b_fixcom n') = Some (PBool False) \<and>
     motionbase_store (\<lambda>d u v. Inr v) n
        (Replay (PBool False) \<lparr> nd_shape = [2], nd_data = [PInt 3, PInt 7] \<rparr>
           [(''file'', PStr ''in.xyz'')]) = (n'', None) \<and>
     \<not> v_explicit (b_fixcom n'') \<and> \<not> a_explicit (b_fixatoms n'') \<and>
     s_explicit (b_file n'') \<and> s_config (b_file n'') = [(''file'', PStr ''in.xyz'')]"
proof -
  let ?u = "\<lambda>(d::string) (u::string) (v::pyval). (Inr v :: error + pyval)"
  let ?fa = "\<lparr> nd_shape = [2], nd_data = [PInt 3, PInt 7] \<rparr>"
  let ?g = "GeopMotion (PBool False) ?fa []"
  let ?r = "Replay (PBool False) ?fa [(''file'', PStr ''in.xyz'')]"
  obtain n where i: "InputMotionBase_init (\<lambda>v. []) (\<lambda>s. None) ?u NoDefault = Inr n"
    and c: "motion_children (\<lambda>v. []) (\<lambda>s. None) ?u False = Inr n"
    using InputMotionBase_fresh by blast
  note t = children_types[OF c]
  have "snd (motionbase_store ?u n ?g) = None"
    using fresh_store_geop_ok[OF c, of False "[2]" "[3, 7]" "[]"] by simp
  then obtain n' where g: "motionbase_store ?u n ?g = (n', None)"
    by (cases "motionbase_store ?u n ?g") simp
  have m: "v_type (b_mode (n\<lparr>b_explicit := True\<rparr>)) = py_str (\<lambda>v. [])" using t(1) by simp
  obtain n'' where r: "motionbase_store ?u n ?r = (n'', None)"
    by (simp add: store_mode_str[OF m] and_then_def slot_store_def)
  have mem: "?g \<in> {GeopMotion (PBool False) ?fa [], NEBMover (PBool False) ?fa [],
       Dynamics (PBool False) ?fa [], DynMatrixMover (PBool False) ?fa [],
       AlchemyMC (PBool False) ?fa []}" by simp
  note th = store_common_attributes_except_replay[of ?g "PBool False" ?fa "[]" ?u n n' "[(''file'', PStr ''in.xyz'')]" n'']
  from th mem g have 1: "b_fixcom n' = fst (value_store (b_fixcom n) (PBool False)) \<and>
      v_explicit (b_fixcom n') \<and> a_explicit (b_fixatoms n')" by blast
  from th r have 2: "b_fixcom n'' = b_fixcom n \<and> b_fixatoms n'' = b_fixatoms n \<and>
      b_file n'' = (b_file n)\<lparr>s_explicit := True, s_config := [(''file'', PStr ''in.xyz'')]\<rparr>"
    by simp
  have 3: "v_value (b_fixcom n') = Some (PBool False)"
    using 1 t(2) by (simp add: value_store_eq)
  show ?thesis using i g r 1 2 3 t(6,7) by auto
qed

section \<open>\<open>fetch\<close> of the dispatcher and of the leaves\<close>














lemma array_node_fresh:
  "InputArray_init u2i None None NoDefault (Some ty) =
     Inr (array_blank None None None False ty
            ((value_blank None None (Some shape0) True py_tuple)\<lparr>v_value := Some shape0\<rparr>))"
  by (simp add: InputArray_init_def shape_node)




section \<open>\<open>parse\<close> of an array leaf with a declared shape\<close>

lemma filter_shape_units:
  "set (map fst ats) \<subseteq> {''shape'', ''units''} \<Longrightarrow>
   filter (\<lambda>k. k \<noteq> ''shape'' \<and> k \<noteq> ''units'') (map fst ats) = []"
  by (induction ats) auto

lemma array_parse_declared_shape:
  assumes c: "rda (a_type n) c = Inr a"
    and st: "map_of ats ''shape'' = Some st"
    and sv: "rd py_tuple (XText st) = Inr (PTuple xs)"
    and p: "plain_shape (a_shape n)"
    and k: "set (map fst ats) \<subseteq> {''shape'', ''units''}"
  shows "array_parse rd rda n (Some (XNode nm ats ((''_text'', c) # rest))) txt =
     (n\<lparr>a_explicit := True, a_value := Some a,
        a_units := (case map_of ats ''units'' of None \<Rightarrow> a_units n | Some u \<Rightarrow> u),
        a_shape := (a_shape n)\<lparr>v_explicit := True, v_value := Some (PTuple xs)\<rparr>\<rparr>, None)"
proof -
  have ty: "v_type (a_shape n) = py_tuple" using p by (simp add: plain_shape_def)
  show ?thesis
    by (cases "map_of ats ''units''")
       (simp_all add: array_parse_def Let_def c st sv value_store_eq ty filter_shape_units[OF k])
qed

lemma as_dims_list_ints: "as_dims_list (map PInt ds) = Inr ds"
  by (induction ds) simp_all

lemma py_eq_ints_shape0: "py_eq (PTuple (map PInt ds)) shape0 = (ds = [0])"
proof (cases ds)
  case Nil
  then show ?thesis by (simp add: shape0_def)
next
  case (Cons d rest)
  then show ?thesis by (cases rest) (auto simp: shape0_def)
qed

lemma filter_all_nonneg:
  "\<forall>d\<in>set ds. (0::int) \<le> d \<Longrightarrow> filter (\<lambda>d. 0 \<le> d) ds = ds \<and> filter (\<lambda>d. d < 0) ds = []"
  by (induction ds) auto

lemma np_reshape_mismatch:
  assumes "\<forall>d\<in>set ds. (0::int) \<le> d" and "prod_list ds \<noteq> int (length (nd_data a))"
  shows "np_reshape a ds = Inl (ValueError (Text ''total size of new array must be unchanged''))"
  using assms filter_all_nonneg[OF assms(1)]
  by (simp add: np_reshape_def Let_def)

text \<open>
  C1, amended. \<open>parse\<close> of an array leaf never compares the declared shape with the
  number of values: with a \<open>shape\<close> attribute of non-negative integers whose
  product differs from the number of values read (and no attribute besides \<open>shape\<close>
  and \<open>units\<close>), \<open>parse\<close> returns without raising, the leaf is explicit and holds
  the values and the declared shape. The mismatch shows only in \<open>fetch\<close>, where
  \<open>reshape\<close> raises \<open>ValueError\<close>; for the declared shape \<open>(0,)\<close> \<open>fetch\<close> raises
  nothing and returns the empty array.
\<close>

theorem parse_keeps_mismatched_shape:
  assumes "rda (a_type n) c = Inr a"
    and "map_of ats ''shape'' = Some st"
    and "rd py_tuple (XText st) = Inr (PTuple (map PInt ds))"
    and "plain_shape (a_shape n)"
    and "set (map fst ats) \<subseteq> {''shape'', ''units''}"
    and "\<forall>d\<in>set ds. 0 \<le> d"
    and "prod_list ds \<noteq> int (length (nd_data a))"
    and "array_parse rd rda n (Some (XNode nm ats ((''_text'', c) # rest))) txt = (n', r)"
  shows "r = None \<and> a_explicit n' \<and> a_value n' = Some a \<and>
         v_value (a_shape n') = Some (PTuple (map PInt ds)) \<and>
         array_fetch u2i scale n' =
           (if ds = [0]
            then (if a_dimension n' \<noteq> ''undefined''
                  then scale (a_dimension n') (a_units n') \<lparr> nd_shape = [0], nd_data = [] \<rparr>
                  else Inr \<lparr> nd_shape = [0], nd_data = [] \<rparr>)
            else Inl (ValueError (Text ''total size of new array must be unchanged'')))"
proof -
  note parsed = array_parse_declared_shape[of rda n c a ats st rd "map PInt ds" nm rest "txt",
      OF assms(1) assms(2) assms(3) assms(4) assms(5)]
  have n': "n' = n\<lparr>a_explicit := True, a_value := Some a,
        a_units := (case map_of ats ''units'' of None \<Rightarrow> a_units n | Some u \<Rightarrow> u),
        a_shape := (a_shape n)\<lparr>v_explicit := True, v_value := Some (PTuple (map PInt ds))\<rparr>\<rparr>"
    and r: "r = None"
    using parsed assms(8) by simp_all
  have fe: "value_fetch u2i (a_shape n') = Inr (PTuple (map PInt ds))"
    using assms(4) unfolding n' by (simp add: value_fetch_def value_check_def plain_shape_def)
  have ex: "a_explicit n'" "a_value n' = Some a"
    "v_value (a_shape n') = Some (PTuple (map PInt ds))"
    unfolding n' by simp_all
  have f: "array_fetch u2i scale n' =
           (if ds = [0]
            then (if a_dimension n' \<noteq> ''undefined''
                  then scale (a_dimension n') (a_units n') \<lparr> nd_shape = [0], nd_data = [] \<rparr>
                  else Inr \<lparr> nd_shape = [0], nd_data = [] \<rparr>)
            else Inl (ValueError (Text ''total size of new array must be unchanged'')))"
    by (simp add: array_fetch_def ex fe py_eq_ints_shape0 as_dims_list_ints
          np_reshape_mismatch[OF assms(6,7)])
  show ?thesis using r ex f by blast
qed

theorem parse_keeps_mismatched_shape_witness:
  "snd (array_parse
          (\<lambda>ty x. if x = XText ''(0,)'' then Inr (PTuple (map PInt [0])) else Inl (ValueError (Text [])))
          (\<lambda>ty x. if x = XText ''[ 1, 2, 3 ]''
                   then Inr \<lparr> nd_shape = [3], nd_data = map PInt [1, 2, 3] \<rparr>
                   else Inl (ValueError (Text [])))
          (projr (InputArray_init (\<lambda>d u v. Inr v) None None NoDefault (Some (py_int (\<lambda>s. None)))))
          (Some (XNode ''fixatoms'' [(''shape'', ''(0,)'')] [(''_text'', XText ''[ 1, 2, 3 ]'')]))
          []) = None \<and>
   array_fetch (\<lambda>d u v. Inr v) (\<lambda>d u a. Inr a)
     (fst (array_parse
          (\<lambda>ty x. if x = XText ''(0,)'' then Inr (PTuple (map PInt [0])) else Inl (ValueError (Text [])))
          (\<lambda>ty x. if x = XText ''[ 1, 2, 3 ]''
                   then Inr \<lparr> nd_shape = [3], nd_data = map PInt [1, 2, 3] \<rparr>
                   else Inl (ValueError (Text [])))
          (projr (InputArray_init (\<lambda>d u v. Inr v) None None NoDefault (Some (py_int (\<lambda>s. None)))))
          (Some (XNode ''fixatoms'' [(''shape'', ''(0,)'')] [(''_text'', XText ''[ 1, 2, 3 ]'')]))
          [])) = Inr \<lparr> nd_shape = [0], nd_data = [] \<rparr>"
proof -
  let ?u = "\<lambda>(d::string) (u::string) (v::pyval). (Inr v :: error + pyval)"
  let ?sc = "\<lambda>(d::string) (u::string) (a::ndarray). (Inr a :: error + ndarray)"
  let ?rd = "\<lambda>(ty::callable) x. if x = XText ''(0,)'' then Inr (PTuple (map PInt [0]))
                else (Inl (ValueError (Text [])) :: error + pyval)"
  let ?a = "\<lparr> nd_shape = [3], nd_data = map PInt [1, 2, 3] \<rparr>"
  let ?rda = "\<lambda>(ty::callable) x. if x = XText ''[ 1, 2, 3 ]'' then Inr ?a
                else (Inl (ValueError (Text [])) :: error + ndarray)"
  let ?m = "array_blank None None None False (py_int (\<lambda>s. None))
            ((value_blank None None (Some shape0) True py_tuple)\<lparr>v_value := Some shape0\<rparr>)"
  let ?x = "XNode ''fixatoms'' [(''shape'', ''(0,)'')] [(''_text'', XText ''[ 1, 2, 3 ]'')]"
  have m: "InputArray_init ?u None None NoDefault (Some (py_int (\<lambda>s. None))) = Inr ?m"
    by (rule array_node_fresh)
  obtain n' r where pr: "array_parse ?rd ?rda ?m (Some ?x) [] = (n', r)"
    by (cases "array_parse ?rd ?rda ?m (Some ?x) []")
  have h1: "?rda (a_type ?m) (XText ''[ 1, 2, 3 ]'') = Inr ?a" by simp
  have h2: "map_of [(''shape'', ''(0,)'')] ''shape'' = Some ''(0,)''" by simp
  have h3: "?rd py_tuple (XText ''(0,)'') = Inr (PTuple (map PInt [0]))" by simp
  have h4: "plain_shape (a_shape ?m)"
    by (simp add: plain_shape_def array_blank_def value_blank_def)
  have h5: "set (map fst [(''shape'', ''(0,)'')]) \<subseteq> {''shape'', ''units''}" by simp
  have h6: "\<forall>d\<in>set [0::int]. 0 \<le> d" by simp
  have h7: "prod_list [0::int] \<noteq> int (length (nd_data ?a))" by simp
  have d: "a_dimension ?m = ''undefined''" by (simp add: array_blank_def)
  note t = parse_keeps_mismatched_shape[where rda="?rda" and rd="?rd" and u2i="?u" and scale="?sc", OF h1 h2 h3 h4 h5 h6 h7 pr]
  have dn: "a_dimension n' = ''undefined''"
    using pr h4 d
    by (auto simp: array_parse_declared_shape[where rda="?rda" and rd="?rd", OF h1 h2 h3 h4 h5])
  from t dn have "r = None \<and> array_fetch ?u ?sc n' = Inr \<lparr> nd_shape = [0], nd_data = [] \<rparr>"
    by simp
  then show ?thesis unfolding m sum.sel pr by simp
qed

text \<open>
  C1 as stated fails: a fresh integer array leaf parses a tag with \<open>shape='(2, 2)'\<close>
  and three values without raising; the later \<open>fetch\<close> raises.
\<close>

theorem parse_accepts_mismatched_shape:
  "snd (array_parse
          (\<lambda>ty x. if x = XText ''(2, 2)'' then Inr (PTuple [PInt 2, PInt 2]) else Inl (ValueError (Text [])))
          (\<lambda>ty x. if x = XText ''[ 1, 2, 3 ]''
                   then Inr \<lparr> nd_shape = [3], nd_data = [PInt 1, PInt 2, PInt 3] \<rparr>
                   else Inl (ValueError (Text [])))
          (projr (InputArray_init (\<lambda>d u v. Inr v) None None NoDefault (Some (py_int (\<lambda>s. None)))))
          (Some (XNode ''fixatoms'' [(''shape'', ''(2, 2)'')] [(''_text'', XText ''[ 1, 2, 3 ]'')]))
          []) = None \<and>
   array_fetch (\<lambda>d u v. Inr v) (\<lambda>d u a. Inr a)
     (fst (array_parse
          (\<lambda>ty x. if x = XText ''(2, 2)'' then Inr (PTuple [PInt 2, PInt 2]) else Inl (ValueError (Text [])))
          (\<lambda>ty x. if x = XText ''[ 1, 2, 3 ]''
                   then Inr \<lparr> nd_shape = [3], nd_data = [PInt 1, PInt 2, PInt 3] \<rparr>
                   else Inl (ValueError (Text [])))
          (projr (InputArray_init (\<lambda>d u v. Inr v) None None NoDefault (Some (py_int (\<lambda>s. None)))))
          (Some (XNode ''fixatoms'' [(''shape'', ''(2, 2)'')] [(''_text'', XText ''[ 1, 2, 3 ]'')]))
          [])) = Inl (ValueError (Text ''total size of new array must be unchanged''))"
  unfolding array_node_fresh sum.sel
  by (simp add: array_parse_def Let_def value_store_eq array_blank_def value_blank_def
        array_fetch_def value_fetch_def value_check_def shape0_def np_reshape_def)

section \<open>\<open>parse\<close> of a composite\<close>

lemma first_missing_none:
  "list_all (\<lambda>(k, c). present c) xs \<Longrightarrow> first_missing xs = None"
  by (induction xs) (auto simp: present_def)

lemma first_missing_at:
  "list_all (\<lambda>(k, c). present c) pre \<Longrightarrow> \<not> present c \<Longrightarrow>
   first_missing (pre @ (k, c) # post) = Some k"
  by (induction pre) (auto simp: present_def)

lemma node_parse_composite:
  assumes "parse_attribs rd rda nm ats xats = (ats', None)"
    and "parse_children rd rda nm dyn fs [] xfs = ((fs', extra'), None)"
  shows "node_parse rd rda (InputN opt ex ats fs dyn extra) (XNode nm xats xfs) =
     (InputN opt True ats' fs' dyn extra', check_mandatory nm ats' fs')"
  using assms by simp

text \<open>
  C8. When the two loops of \<open>parse\<close> over the attributes and the children of the
  tree have run without raising, leaving the attribute nodes \<open>ats'\<close> and the field
  nodes \<open>fs'\<close>: the first attribute node, in declaration order, that is neither
  explicit nor optional makes \<open>parse\<close> raise the \<open>ValueError\<close> that names it and the
  tag; if there is none, the first such field node does; if there is none either,
  \<open>parse\<close> returns.
\<close>

theorem missing_mandatory_raises:
  assumes "parse_attribs rd rda nm ats xats = (ats', None)"
    and "parse_children rd rda nm dyn fs [] xfs = ((fs', extra'), None)"
  shows
   "(ats' = pre @ (a, c) # post \<and> list_all (\<lambda>(k, c). present c) pre \<and> \<not> present c \<longrightarrow>
       snd (node_parse rd rda (InputN opt ex ats fs dyn extra) (XNode nm xats xfs)) =
         Some (ValueError (mandatory_msg ''Attribute'' a nm))) \<and>
    (list_all (\<lambda>(k, c). present c) ats' \<and>
     fs' = fpre @ (f, d) # fpost \<and> list_all (\<lambda>(k, c). present c) fpre \<and> \<not> present d \<longrightarrow>
       snd (node_parse rd rda (InputN opt ex ats fs dyn extra) (XNode nm xats xfs)) =
         Some (ValueError (mandatory_msg ''Field'' f nm))) \<and>
    (list_all (\<lambda>(k, c). present c) ats' \<and> list_all (\<lambda>(k, c). present c) fs' \<longrightarrow>
       snd (node_parse rd rda (InputN opt ex ats fs dyn extra) (XNode nm xats xfs)) = None)"
  unfolding node_parse_composite[OF assms]
  by (auto simp: check_mandatory_def first_missing_none first_missing_at)

lemma set_child_keys [simp]: "map fst (set_child k c xs) = map fst xs"
  by (induction xs) auto










theorem missing_mandatory_raises_witness:
  "snd (node_parse
          (\<lambda>ty x. case x of XText s \<Rightarrow> Inr (PStr s) | XNode nm ats fs \<Rightarrow> Inl (TypeError (Text [])))
          (\<lambda>ty x. Inl (ValueError (Text [])))
          (InputN False False
             [(''mode'', ValueN (value_blank None None None False (py_str (\<lambda>v. []))))]
             [(''file'', ValueN (value_blank None None None False (py_str (\<lambda>v. []))))] [] [])
          (XNode ''motion'' [] [])) =
     Some (ValueError (mandatory_msg ''Attribute'' ''mode'' ''motion'')) \<and>
   snd (node_parse
          (\<lambda>ty x. case x of XText s \<Rightarrow> Inr (PStr s) | XNode nm ats fs \<Rightarrow> Inl (TypeError (Text [])))
          (\<lambda>ty x. Inl (ValueError (Text [])))
          (InputN False False
             [(''mode'', ValueN (value_blank None None None False (py_str (\<lambda>v. []))))]
             [(''file'', ValueN (value_blank None None None False (py_str (\<lambda>v. []))))] [] [])
          (XNode ''motion'' [(''mode'', ''dummy'')] [])) =
     Some (ValueError (mandatory_msg ''Field'' ''file'' ''motion''))"
proof -
  let ?rd = "\<lambda>(ty::callable) x. case x of XText s \<Rightarrow> (Inr (PStr s) :: error + pyval)
                 | XNode nm ats fs \<Rightarrow> Inl (TypeError (Text []))"
  let ?rda = "\<lambda>(ty::callable) (x::xml). (Inl (ValueError (Text [])) :: error + ndarray)"
  let ?L = "value_blank None None None False (py_str (\<lambda>v. []))"
  let ?L' = "?L\<lparr>v_explicit := True, v_value := Some (PStr ''dummy'')\<rparr>"
  let ?ats = "[(''mode'', ValueN ?L)]"
  let ?fs = "[(''file'', ValueN ?L)]"
  have np: "\<not> present (ValueN ?L)" by (simp add: present_def value_blank_def)
  have pp: "present (ValueN ?L')" by (simp add: present_def)
  have a1: "parse_attribs ?rd ?rda ''motion'' ?ats [] = (?ats, None)" by simp
  have c1: "parse_children ?rd ?rda ''motion'' [] ?fs [] [] = ((?fs, []), None)" by simp
  have a2: "parse_attribs ?rd ?rda ''motion'' ?ats [(''mode'', ''dummy'')] =
      ([(''mode'', ValueN ?L')], None)"
    by (simp add: value_parse_def value_blank_def)
  have h1: "?ats = [] @ (''mode'', ValueN ?L) # [] \<and> list_all (\<lambda>(k, c). present c) [] \<and>
      \<not> present (ValueN ?L)"
    using np by simp
  have h2: "list_all (\<lambda>(k, c). present c) [(''mode'', ValueN ?L')] \<and>
      ?fs = [] @ (''file'', ValueN ?L) # [] \<and> list_all (\<lambda>(k, c). present c) [] \<and>
      \<not> present (ValueN ?L)"
    using np pp by simp
  from missing_mandatory_raises[OF a1 c1, where pre="[]" and a="''mode''" and c="ValueN ?L" and post="[]"
      and opt=False and ex=False and extra="[]"] h1
  have 1: "snd (node_parse ?rd ?rda (InputN False False ?ats ?fs [] []) (XNode ''motion'' [] [])) =
     Some (ValueError (mandatory_msg ''Attribute'' ''mode'' ''motion''))"
    by blast
  from missing_mandatory_raises[OF a2 c1, where fpre="[]" and f="''file''" and d="ValueN ?L" and fpost="[]"
      and opt=False and ex=False and extra="[]"] h2
  have 2: "snd (node_parse ?rd ?rda (InputN False False ?ats ?fs [] [])
       (XNode ''motion'' [(''mode'', ''dummy'')] [])) =
     Some (ValueError (mandatory_msg ''Field'' ''file'' ''motion''))"
    by blast
  show ?thesis using 1 2 by (rule conjI)
qed


section \<open>Round trip of a composite domain object\<close>























end
